theory Spec2Isabelle
  imports Complex_Main
begin

section \<open>JavaScript values\<close>

text \<open>
  The response bodies that axios decodes, the fields of a request body and the results of
  property reads are JavaScript values. \<open>JUndefined\<close> is what a read of a missing property
  yields; it never occurs inside decoded JSON. A decoded number is a double, hence a
  rational; the code only ever tests a number for being zero. An object is the list of its
  own properties, looked up by key.
\<close>

datatype jsval =
    JUndefined
  | JNull
  | JBool bool
  | JNum rat
  | JStr string
  | JArr "jsval list"
  | JObj "(string \<times> jsval) list"

text \<open>JavaScript truthiness: what \<open>if (v)\<close>, \<open>!v\<close> and \<open>v || w\<close> test.\<close>

fun truthy :: "jsval \<Rightarrow> bool" where
  "truthy JUndefined = False"
| "truthy JNull = False"
| "truthy (JBool b) = b"
| "truthy (JNum n) = (n \<noteq> 0)"
| "truthy (JStr s) = (s \<noteq> [])"
| "truthy (JArr xs) = True"
| "truthy (JObj fs) = True"

text \<open>\<open>v || null\<close>\<close>

definition or_null :: "jsval \<Rightarrow> jsval" where
  "or_null v = (if truthy v then v else JNull)"

text \<open>
  \<open>v?.k\<close> for the property names the code reads (\<open>candidates\<close>, \<open>content\<close>, \<open>parts\<close>,
  \<open>text\<close>, and the fields of the chat request body): none of them is a built-in property
  of arrays, strings, numbers or booleans, so only an object can have one.
\<close>

fun get :: "string \<Rightarrow> jsval \<Rightarrow> jsval" where
  "get k (JObj fs) = (case map_of fs k of Some v \<Rightarrow> v | None \<Rightarrow> JUndefined)"
| "get k v = JUndefined"

text \<open>\<open>Array.isArray(v)\<close>\<close>

fun isArray :: "jsval \<Rightarrow> bool" where
  "isArray (JArr xs) = True"
| "isArray v = False"

text \<open>\<open>v.length\<close> of an array (only read after \<open>Array.isArray(v)\<close> has held).\<close>

fun array_length :: "jsval \<Rightarrow> nat" where
  "array_length (JArr xs) = length xs"
| "array_length v = 0"

text \<open>
  \<open>v?.[0]\<close>: the first element of an array, the first character of a string, the property
  \<open>"0"\<close> of an object, and \<open>undefined\<close> where there is none.
\<close>

fun at0 :: "jsval \<Rightarrow> jsval" where
  "at0 (JArr xs) = (case xs of [] \<Rightarrow> JUndefined | x # _ \<Rightarrow> x)"
| "at0 (JStr s) = (case s of [] \<Rightarrow> JUndefined | c # _ \<Rightarrow> JStr [c])"
| "at0 (JObj fs) = (case map_of fs ''0'' of Some v \<Rightarrow> v | None \<Rightarrow> JUndefined)"
| "at0 v = JUndefined"

text \<open>
  Whether \<open>`${v}`\<close> yields a string or throws a \<open>TypeError\<close>. A decoded object is
  converted by \<open>Object.prototype.toString\<close> unless it has a property \<open>toString\<close> of its
  own, which (being data) cannot be called, and then \<open>valueOf\<close> gives no primitive
  either; an array is joined, which converts each element but \<open>null\<close>.
\<close>

fun stringifiable :: "jsval \<Rightarrow> bool" where
  "stringifiable (JObj fs) = (map_of fs ''toString'' = None)"
| "stringifiable (JArr xs) = (\<forall>x\<in>set xs. stringifiable x)"
| "stringifiable v = True"

section \<open>Response Extractor\<close>

text \<open>
  \<open>extractAiText(response)\<close> of the recommendation controller. Nothing in the body of its
  \<open>try\<close> can throw on a decoded value (every read is guarded by \<open>?.\<close> or by
  \<open>Array.isArray\<close>), and its \<open>catch\<close> returns \<open>null\<close> as well, so the function is total;
  \<open>JNull\<close> is the absent value.
\<close>

definition extractAiText :: "jsval \<Rightarrow> jsval" where
  "extractAiText response =
     (let candidates = get ''candidates'' response in
      if isArray candidates \<and> array_length candidates > 0 then
        (let parts = get ''parts'' (get ''content'' (at0 candidates)) in
         if isArray parts \<and> array_length parts > 0 then or_null (get ''text'' (at0 parts))
         else JNull)
      else JNull)"

text \<open>
  The extraction the chat controller writes inline:
  \<open>response.data?.candidates?.[0]?.content?.parts?.[0]?.text || null\<close>.
\<close>

definition inline_text :: "jsval \<Rightarrow> jsval" where
  "inline_text data =
     or_null (get ''text'' (at0 (get ''parts'' (get ''content'' (at0 (get ''candidates'' data))))))"

section \<open>Effects: the identity provider and the upstream endpoint\<close>

text \<open>
  A thrown \<open>Error\<close>: its message and, for an axios error that carries a response, the HTTP
  status (\<open>err.response.status\<close>).
\<close>

record js_error =
  err_message :: string
  err_status :: "nat option"

text \<open>\<open>new Error(msg)\<close>\<close>

definition new_Error :: "string \<Rightarrow> js_error" where
  "new_Error msg = \<lparr>err_message = msg, err_status = None\<rparr>"

text \<open>
  \<open>tokenResponse.token\<close> is a string, \<open>null\<close> or \<open>undefined\<close>; the template literal
  \<open>`Bearer ${accessToken}`\<close> renders the last two as the words.
\<close>

datatype token = Token string | TokenNull | TokenUndefined

fun bearer :: "token \<Rightarrow> string" where
  "bearer (Token s) = ''Bearer '' @ s"
| "bearer TokenNull = ''Bearer null''"
| "bearer TokenUndefined = ''Bearer undefined''"

text \<open>
  One \<open>axios.post(endpoint, requestBody, {headers, timeout})\<close>. The \<open>Content-Type\<close> header
  and the timeout are the same constants in every call.
\<close>

record request =
  url :: string
  authorization :: string
  payload :: jsval

text \<open>
  axios resolves with the response on a 2xx status (\<open>Resolved\<close> holds \<open>response.data\<close>) and
  rejects with an error on any other status, a transport error or the timeout.
\<close>

datatype http_outcome = Resolved jsval | Rejected js_error

text \<open>
  The effects a call performs, oldest first. The outside world is a pair of oracles indexed
  by the number of effects performed before: \<open>idp env t\<close> is what
  \<open>auth.getClient()\<close> followed by \<open>client.getAccessToken()\<close> yields at that moment (the
  message of what was thrown, or the token), \<open>upstream env t r\<close> is what the POST \<open>r\<close> issued
  at that moment yields. \<open>LOCATION\<close> and \<open>PROJECT_ID\<close> are read from the process
  environment at start-up.
\<close>

datatype event = TokenFetch | HttpPost request

record env =
  LOCATION :: string
  PROJECT_ID :: string
  idp :: "nat \<Rightarrow> string + token"
  upstream :: "nat \<Rightarrow> request \<Rightarrow> http_outcome"

text \<open>
  \<open>getAccessToken()\<close>; the two controllers hold the same function (the recommendation one
  also logs the failure).
\<close>

definition getAccessToken :: "env \<Rightarrow> event list \<Rightarrow> (js_error + token) \<times> event list" where
  "getAccessToken e tr =
     (case idp e (length tr) of
        Inl msg \<Rightarrow> (Inl (new_Error (''Authentication failed: '' @ msg)), tr @ [TokenFetch])
      | Inr tok \<Rightarrow> (Inr tok, tr @ [TokenFetch]))"

definition endpoint :: "env \<Rightarrow> string \<Rightarrow> string" where
  "endpoint e modelName =
     ''https://'' @ LOCATION e @ ''-aiplatform.googleapis.com/v1/projects/'' @ PROJECT_ID e
       @ ''/locations/'' @ LOCATION e @ ''/publishers/google/models/'' @ modelName
       @ '':generateContent''"

text \<open>\<open>{ role: 'user', parts: [{ text: t }] }\<close>\<close>

definition user_turn :: "jsval \<Rightarrow> jsval" where
  "user_turn t = JObj [(''role'', JStr ''user''), (''parts'', JArr [JObj [(''text'', t)]])]"

section \<open>Generation Invoker, recommendation path\<close>

definition vertex_modelNames :: "string list" where
  "vertex_modelNames =
     [''gemini-2.5-pro'', ''gemini-2.5-flash'', ''gemini-1.5-flash'', ''gemini-1.5-pro'']"

definition vertex_request :: "env \<Rightarrow> token \<Rightarrow> string \<Rightarrow> string \<Rightarrow> request" where
  "vertex_request e accessToken prompt modelName =
     \<lparr>url = endpoint e modelName,
      authorization = bearer accessToken,
      payload = JObj [(''contents'', JArr [user_turn (JStr prompt)])]\<rparr>"

text \<open>
  The \<open>for\<close> loop of \<open>generateWithVertexAI\<close> and the \<open>throw\<close> after it: a resolved POST
  returns \<open>response.data\<close> at once, a rejected one is kept in \<open>lastError\<close>.
\<close>

fun vertex_loop ::
  "env \<Rightarrow> token \<Rightarrow> string \<Rightarrow> string list \<Rightarrow> js_error option \<Rightarrow> event list
     \<Rightarrow> (js_error + jsval) \<times> event list" where
  "vertex_loop e accessToken prompt [] lastError tr =
     (case lastError of
        Some err \<Rightarrow> (Inl err, tr)
      | None \<Rightarrow> (Inl (new_Error ''All Vertex AI models failed''), tr))"
| "vertex_loop e accessToken prompt (modelName # rest) lastError tr =
     (let r = vertex_request e accessToken prompt modelName in
      case upstream e (length tr) r of
        Resolved data \<Rightarrow> (Inr data, tr @ [HttpPost r])
      | Rejected err \<Rightarrow> vertex_loop e accessToken prompt rest (Some err) (tr @ [HttpPost r]))"

text \<open>\<open>generateWithVertexAI(prompt)\<close>, with the list of model names as a parameter.\<close>

definition generateWithVertexAI_on ::
  "string list \<Rightarrow> env \<Rightarrow> string \<Rightarrow> event list \<Rightarrow> (js_error + jsval) \<times> event list" where
  "generateWithVertexAI_on modelNames e prompt tr =
     (case getAccessToken e tr of
        (Inl err, tr') \<Rightarrow>
          (Inl (new_Error (''Failed to authenticate with Google Cloud: '' @ err_message err)), tr')
      | (Inr accessToken, tr') \<Rightarrow> vertex_loop e accessToken prompt modelNames None tr')"

definition generateWithVertexAI ::
  "env \<Rightarrow> string \<Rightarrow> event list \<Rightarrow> (js_error + jsval) \<times> event list" where
  "generateWithVertexAI = generateWithVertexAI_on vertex_modelNames"

text \<open>
  Steps 3 and 4 of \<open>generateHealthRecommendations\<close>: the call of the invoker and the
  extraction of its result (lines 227 to 253). The handler answers 500 "Failed to
  generate recommendations with AI." with the error when the invoker throws
  (\<open>GenerationFailed\<close>), answers 500 "No recommendations content in AI response" with the
  raw body when the extractor finds no text (\<open>NoContent\<close>), and otherwise goes on with
  the text (\<open>Recommendations\<close>). What precedes (validation, the database read, the
  prompt) and what follows (a log line, the database write, the answer) is left out.
\<close>

datatype recommendation_outcome =
    Recommendations jsval
  | GenerationFailed js_error
  | NoContent jsval

definition generateRecommendations_on ::
  "string list \<Rightarrow> env \<Rightarrow> string \<Rightarrow> event list \<Rightarrow> recommendation_outcome \<times> event list" where
  "generateRecommendations_on modelNames e prompt tr =
     (case generateWithVertexAI_on modelNames e prompt tr of
        (Inl err, tr') \<Rightarrow> (GenerationFailed err, tr')
      | (Inr aiResp, tr') \<Rightarrow>
          (let recommendations = extractAiText aiResp in
           if \<not> truthy recommendations then (NoContent aiResp, tr')
           else (Recommendations recommendations, tr')))"

section \<open>Generation Invoker, chat path\<close>

definition gemini_modelNames :: "string list" where
  "gemini_modelNames = [''gemini-2.0-flash-exp'', ''gemini-1.5-flash'', ''gemini-1.5-pro'']"

definition systemInstruction :: jsval where
  "systemInstruction =
     JObj [(''parts'', JArr [JObj [(''text'', JStr
       (''You are a helpful healthcare assistant. Provide clear, accurate, and empathetic ''
        @ ''responses to health-related questions. Keep responses concise and easy to ''
        @ ''understand. If a question is outside your medical knowledge, suggest ''
        @ ''consulting a healthcare professional.''))]])]"

definition gemini_request :: "env \<Rightarrow> token \<Rightarrow> jsval list \<Rightarrow> string \<Rightarrow> request" where
  "gemini_request e accessToken conversationHistory modelName =
     \<lparr>url = endpoint e modelName,
      authorization = bearer accessToken,
      payload = JObj [(''contents'', JArr conversationHistory),
                      (''systemInstruction'', systemInstruction)]\<rparr>"

text \<open>
  The \<open>for\<close> loop of \<open>callGeminiAPI\<close> and the \<open>throw\<close> after it: a resolved POST whose
  text is truthy returns the text; one whose text is not leaves the \<open>try\<close> without a
  \<open>return\<close> and without touching \<open>lastError\<close>; a rejected one is kept in \<open>lastError\<close>.
\<close>

fun gemini_loop ::
  "env \<Rightarrow> token \<Rightarrow> jsval list \<Rightarrow> string list \<Rightarrow> js_error option \<Rightarrow> event list
     \<Rightarrow> (js_error + jsval) \<times> event list" where
  "gemini_loop e accessToken conversationHistory [] lastError tr =
     (case lastError of
        Some err \<Rightarrow> (Inl err, tr)
      | None \<Rightarrow> (Inl (new_Error ''All Gemini models failed''), tr))"
| "gemini_loop e accessToken conversationHistory (modelName # rest) lastError tr =
     (let r = gemini_request e accessToken conversationHistory modelName in
      case upstream e (length tr) r of
        Resolved data \<Rightarrow>
          (let aiText = inline_text data in
           if truthy aiText then (Inr aiText, tr @ [HttpPost r])
           else gemini_loop e accessToken conversationHistory rest lastError (tr @ [HttpPost r]))
      | Rejected err \<Rightarrow>
          gemini_loop e accessToken conversationHistory rest (Some err) (tr @ [HttpPost r]))"

text \<open>
  \<open>callGeminiAPI(conversationHistory)\<close>, with the list of model names as a parameter. The
  \<open>await getAccessToken()\<close> stands outside every \<open>try\<close>: its error propagates as it is.
\<close>

definition callGeminiAPI_on ::
  "string list \<Rightarrow> env \<Rightarrow> jsval list \<Rightarrow> event list \<Rightarrow> (js_error + jsval) \<times> event list" where
  "callGeminiAPI_on modelNames e conversationHistory tr =
     (case getAccessToken e tr of
        (Inl err, tr') \<Rightarrow> (Inl err, tr')
      | (Inr accessToken, tr') \<Rightarrow> gemini_loop e accessToken conversationHistory modelNames None tr')"

definition callGeminiAPI ::
  "env \<Rightarrow> jsval list \<Rightarrow> event list \<Rightarrow> (js_error + jsval) \<times> event list" where
  "callGeminiAPI = callGeminiAPI_on gemini_modelNames"

section \<open>The chat handler\<close>

text \<open>
  Lines 132 to 142 of \<open>chat\<close>: the history is the caller's array when it is one, the empty
  array otherwise, and the new user turn is pushed at its end.
\<close>

fun elements :: "jsval \<Rightarrow> jsval list" where
  "elements (JArr xs) = xs"
| "elements v = []"

definition geminiHistory :: "jsval \<Rightarrow> jsval \<Rightarrow> jsval list" where
  "geminiHistory conversationHistory message =
     (let history = (if truthy conversationHistory \<and> isArray conversationHistory
                     then elements conversationHistory else [])
      in history @ [user_turn message])"

text \<open>
  What \<open>chat\<close> answers. \<open>Reply200\<close>: status 200 with the \<open>data\<close> of the body;
  \<open>new Date().toISOString()\<close> is the parameter \<open>now\<close>. \<open>Reply400\<close>: status 400, "Session ID
  and message are required". \<open>Reply500_AI\<close>: status 500, "Failed to get AI response.
  Please try again.", with the message of the error that \<open>callGeminiAPI\<close> threw.
  \<open>Reply500_processing\<close>: status 500, "Failed to process chat message", the answer of the
  outer \<open>catch\<close> (the message of its \<open>TypeError\<close> is engine text and is not modelled).
\<close>

datatype chat_reply =
    Reply200 (sessionId: jsval) (userMessage: jsval) (botResponse: jsval) (timestamp: string)
  | Reply400
  | Reply500_AI string
  | Reply500_processing

text \<open>
  The handler after the destructuring of \<open>req.body\<close>. The two \<open>console.log\<close> lines after
  the validation write \<open>sessionId\<close> and \<open>message\<close> through template literals, which
  throws into the outer \<open>catch\<close> for a value that has no string form.
\<close>

definition chat_fields ::
  "env \<Rightarrow> string \<Rightarrow> jsval \<Rightarrow> jsval \<Rightarrow> jsval \<Rightarrow> event list \<Rightarrow> chat_reply \<times> event list" where
  "chat_fields e now sid message conversationHistory tr =
     (if \<not> truthy sid \<or> \<not> truthy message then (Reply400, tr)
      else if \<not> stringifiable sid \<or> \<not> stringifiable message then (Reply500_processing, tr)
      else
        (case callGeminiAPI e (geminiHistory conversationHistory message) tr of
           (Inr aiResponse, tr') \<Rightarrow> (Reply200 sid message aiResponse now, tr')
         | (Inl err, tr') \<Rightarrow> (Reply500_AI (err_message err), tr')))"

text \<open>
  \<open>chat(req, res)\<close> on \<open>req.body\<close>: destructuring \<open>undefined\<close> or \<open>null\<close> throws a
  \<open>TypeError\<close>, which the outer \<open>catch\<close> answers.
\<close>

definition chat :: "env \<Rightarrow> string \<Rightarrow> jsval \<Rightarrow> event list \<Rightarrow> chat_reply \<times> event list" where
  "chat e now body tr =
     (if body = JUndefined \<or> body = JNull
      then (Reply500_processing, tr)
      else chat_fields e now (get ''sessionId'' body) (get ''message'' body)
             (get ''conversationHistory'' body) tr)"

section \<open>Outcomes of an attempt, counts over a trace\<close>

text \<open>The POST was rejected: the \<open>catch\<close> branch of either loop runs.\<close>

fun rejected :: "http_outcome \<Rightarrow> bool" where
  "rejected (Rejected err) = True"
| "rejected (Resolved data) = False"

text \<open>The POST resolved, and the chat path's inline extraction finds no truthy text.\<close>

fun resolved_without_text :: "http_outcome \<Rightarrow> bool" where
  "resolved_without_text (Rejected err) = False"
| "resolved_without_text (Resolved data) = (\<not> truthy (inline_text data))"

text \<open>Either of the two: the attempts after which the chat loop goes on.\<close>

fun without_text :: "http_outcome \<Rightarrow> bool" where
  "without_text (Rejected err) = True"
| "without_text (Resolved data) = (\<not> truthy (inline_text data))"

fun is_fetch :: "event \<Rightarrow> bool" where
  "is_fetch TokenFetch = True"
| "is_fetch (HttpPost r) = False"

text \<open>The requests posted in a trace, oldest first.\<close>

fun posts :: "event list \<Rightarrow> request list" where
  "posts [] = []"
| "posts (TokenFetch # tr) = posts tr"
| "posts (HttpPost r # tr) = r # posts tr"

text \<open>The number of credential fetches in a trace.\<close>

definition fetches :: "event list \<Rightarrow> nat" where
  "fetches tr = length (filter is_fetch tr)"

section \<open>Scenarios\<close>

text \<open>
  The concrete bodies, errors and environments at which the theorems below are
  instantiated. \<open>world tokens answers\<close> runs in the default region and project; its
  identity provider yields \<open>tokens t\<close> and its endpoint answers the POST issued at
  moment \<open>t\<close> with \<open>answers t\<close>. In a call that starts from the empty trace the token is
  fetched at moment 0 and the candidates are tried at moments 1, 2, ...
\<close>

definition text_envelope :: "string \<Rightarrow> jsval" where
  "text_envelope s =
     JObj [(''candidates'',
       JArr [JObj [(''content'', JObj [(''parts'', JArr [JObj [(''text'', JStr s)]])])]])]"

definition empty_envelope :: jsval where
  "empty_envelope = JObj [(''candidates'', JArr [])]"

definition status_429 :: js_error where
  "status_429 = \<lparr>err_message = ''Request failed with status code 429'', err_status = Some 429\<rparr>"

definition status_503 :: js_error where
  "status_503 = \<lparr>err_message = ''Request failed with status code 503'', err_status = Some 503\<rparr>"

definition world :: "(nat \<Rightarrow> string + token) \<Rightarrow> (nat \<Rightarrow> http_outcome) \<Rightarrow> env" where
  "world tokens answers =
     \<lparr>LOCATION = ''us-central1'', PROJECT_ID = ''dolet-app'',
      idp = tokens, upstream = (\<lambda>t r. answers t)\<rparr>"

definition busy_then_text :: env where
  "busy_then_text =
     world (\<lambda>t. Inr (Token ''ya29''))
       (\<lambda>t. if t = 1 then Rejected status_429 else Resolved (text_envelope ''Drink water.''))"

definition empty_then_text :: env where
  "empty_then_text =
     world (\<lambda>t. Inr (Token ''ya29''))
       (\<lambda>t. if t = 1 then Resolved empty_envelope else Resolved (text_envelope ''Drink water.''))"

definition busy_empty_text :: env where
  "busy_empty_text =
     world (\<lambda>t. Inr (Token ''ya29''))
       (\<lambda>t. if t = 1 then Rejected status_429
            else if t = 2 then Resolved empty_envelope
            else Resolved (text_envelope ''Drink water.''))"

definition busy_then_empty :: env where
  "busy_then_empty =
     world (\<lambda>t. Inr (Token ''ya29''))
       (\<lambda>t. if t = 1 then Rejected status_429 else Resolved empty_envelope)"

definition busy_then_down :: env where
  "busy_then_down =
     world (\<lambda>t. Inr (Token ''ya29''))
       (\<lambda>t. if t = 1 then Rejected status_429 else Rejected status_503)"

definition always_empty :: env where
  "always_empty = world (\<lambda>t. Inr (Token ''ya29'')) (\<lambda>t. Resolved empty_envelope)"

definition always_text :: env where
  "always_text =
     world (\<lambda>t. if t = 0 then Inr (Token ''first'') else Inr (Token ''second''))
       (\<lambda>t. Resolved (text_envelope ''Drink water.''))"

definition rotating_tokens :: env where
  "rotating_tokens =
     world (\<lambda>t. if t = 0 then Inr (Token ''first'') else Inr (Token ''second''))
       (\<lambda>t. if t = 1 \<or> t = 4 then Rejected status_429
            else Resolved (text_envelope ''Drink water.''))"

definition no_credentials :: env where
  "no_credentials =
     world (\<lambda>t. Inl ''Could not load the default credentials'')
       (\<lambda>t. Resolved (text_envelope ''Drink water.''))"

section \<open>Properties of the Response Extractor\<close>

text \<open>
  Claim C5, as the code has it. On a well-formed envelope (the \<open>candidates\<close> array is not
  empty, its first element has a \<open>content\<close> whose \<open>parts\<close> array is not empty, and the
  first part has a string \<open>text\<close>) \<open>extractAiText\<close> returns exactly that string when it is
  not empty. When the string is empty, \<open>parts[0]?.text || null\<close> turns it into \<open>null\<close>:
  the empty string is reported as absent, not returned.
\<close>

theorem extractAiText_well_formed:
  assumes "get ''candidates'' response = JArr (c # cs)"
    and "get ''parts'' (get ''content'' c) = JArr (p # ps)"
    and "get ''text'' p = JStr s"
  shows "extractAiText response = (if s = [] then JNull else JStr s)"
  using assms by (simp add: extractAiText_def or_null_def)

theorem extractAiText_well_formed_witness:
  "extractAiText
     (JObj [(''candidates'',
       JArr [JObj [(''content'', JObj [(''parts'', JArr [JObj [(''text'', JStr ''Drink water.'')]])])]])])
   = JStr ''Drink water.''"
  using extractAiText_well_formed
    [of "JObj [(''candidates'',
          JArr [JObj [(''content'', JObj [(''parts'', JArr [JObj [(''text'', JStr ''Drink water.'')]])])]])]"
        "JObj [(''content'', JObj [(''parts'', JArr [JObj [(''text'', JStr ''Drink water.'')]])])]"
        "[]" "JObj [(''text'', JStr ''Drink water.'')]" "[]" "''Drink water.''"]
  by simp

text \<open>
  The envelope \<open>{candidates: [{content: {parts: [{text: ""}]}}]}\<close> is well formed and its
  text is the empty string; the extractor returns \<open>null\<close>, not \<open>""\<close>.
\<close>

theorem extractAiText_empty_text_counterexample:
  "extractAiText
     (JObj [(''candidates'',
       JArr [JObj [(''content'', JObj [(''parts'', JArr [JObj [(''text'', JStr [])]])])]])])
   = JNull
   \<and> extractAiText
     (JObj [(''candidates'',
       JArr [JObj [(''content'', JObj [(''parts'', JArr [JObj [(''text'', JStr [])]])])]])])
   \<noteq> JStr []"
  by (simp add: extractAiText_def or_null_def)

text \<open>
  Claim C6. Whatever the input, \<open>extractAiText\<close> returns a value (it is a total function:
  no read in it can throw, and its \<open>catch\<close> returns \<open>null\<close>), and the value is \<open>null\<close>
  whenever a layer is missing or malformed: \<open>candidates\<close> is missing, not an array or
  empty (which covers every input that is not an object); or \<open>parts\<close> under the first
  candidate's \<open>content\<close> is missing, not an array or empty (which covers a missing or
  non-object \<open>content\<close> and a \<open>null\<close> first candidate); or \<open>text\<close> of the first part is
  missing, \<open>null\<close> or otherwise falsy.
\<close>

theorem extractAiText_malformed_absent:
  assumes "\<not> (isArray (get ''candidates'' response) \<and> array_length (get ''candidates'' response) > 0)
     \<or> \<not> (isArray (get ''parts'' (get ''content'' (at0 (get ''candidates'' response))))
          \<and> array_length (get ''parts'' (get ''content'' (at0 (get ''candidates'' response)))) > 0)
     \<or> \<not> truthy (get ''text'' (at0 (get ''parts'' (get ''content'' (at0 (get ''candidates'' response))))))"
  shows "extractAiText response = JNull"
  using assms by (auto simp add: extractAiText_def or_null_def Let_def)

theorem extractAiText_malformed_absent_witness:
  "extractAiText (JObj [(''candidates'', JArr [])]) = JNull
   \<and> extractAiText (JStr ''Bad Gateway'') = JNull
   \<and> extractAiText (JObj [(''candidates'', JObj [(''0'', JNull)])]) = JNull
   \<and> extractAiText (JObj [(''candidates'', JArr [JObj [(''finishReason'', JStr ''SAFETY'')]])]) = JNull
   \<and> extractAiText (JObj [(''candidates'', JArr [JObj [(''content'', JObj [(''parts'', JStr ''x'')])]])]) = JNull
   \<and> extractAiText
       (JObj [(''candidates'', JArr [JObj [(''content'', JObj [(''parts'', JArr [JObj []])])]])]) = JNull"
  using extractAiText_malformed_absent [of "JObj [(''candidates'', JArr [])]"]
    extractAiText_malformed_absent [of "JStr ''Bad Gateway''"]
    extractAiText_malformed_absent [of "JObj [(''candidates'', JObj [(''0'', JNull)])]"]
    extractAiText_malformed_absent
      [of "JObj [(''candidates'', JArr [JObj [(''finishReason'', JStr ''SAFETY'')]])]"]
    extractAiText_malformed_absent
      [of "JObj [(''candidates'', JArr [JObj [(''content'', JObj [(''parts'', JStr ''x'')])]])]"]
    extractAiText_malformed_absent
      [of "JObj [(''candidates'', JArr [JObj [(''content'', JObj [(''parts'', JArr [JObj []])])]])]"]
  by simp

section \<open>Properties of the two loops\<close>

lemma shift_prefix:
  assumes "\<forall>j<length (a # pre). P (n + j) ((a # pre) ! j)"
  shows "\<forall>j<length pre. P (Suc n + j) (pre ! j)"
proof (intro allI impI)
  fix j assume "j < length pre"
  then have "Suc j < length (a # pre)" by simp
  with assms have "P (n + Suc j) ((a # pre) ! Suc j)" by blast
  then show "P (Suc n + j) (pre ! j)" by simp
qed

text \<open>
  Either loop posts to an initial segment of the candidates, one request each, in the
  order of the list, and adds nothing else to the trace.
\<close>

lemma vertex_loop_trace:
  "\<exists>n\<le>length ms. snd (vertex_loop e tok p ms le tr)
      = tr @ map (\<lambda>m. HttpPost (vertex_request e tok p m)) (take n ms)"
proof (induction ms arbitrary: le tr)
  case Nil
  then show ?case by (simp split: option.splits)
next
  case (Cons m ms)
  let ?r = "vertex_request e tok p m"
  show ?case
  proof (cases "upstream e (length tr) ?r")
    case (Resolved data)
    then have "snd (vertex_loop e tok p (m # ms) le tr)
      = tr @ map (\<lambda>m. HttpPost (vertex_request e tok p m)) (take (Suc 0) (m # ms))"
      by simp
    then show ?thesis by (metis Suc_leI length_Cons zero_less_Suc)
  next
    case (Rejected err)
    from Cons.IH [of "Some err" "tr @ [HttpPost ?r]"]
    obtain n where "n \<le> length ms"
      and "snd (vertex_loop e tok p ms (Some err) (tr @ [HttpPost ?r]))
         = (tr @ [HttpPost ?r]) @ map (\<lambda>m. HttpPost (vertex_request e tok p m)) (take n ms)"
      by blast
    with Rejected have "Suc n \<le> length (m # ms)"
      and "snd (vertex_loop e tok p (m # ms) le tr)
         = tr @ map (\<lambda>m. HttpPost (vertex_request e tok p m)) (take (Suc n) (m # ms))"
      by simp_all
    then show ?thesis by blast
  qed
qed

lemma gemini_loop_trace:
  "\<exists>n\<le>length ms. snd (gemini_loop e tok h ms le tr)
      = tr @ map (\<lambda>m. HttpPost (gemini_request e tok h m)) (take n ms)"
proof (induction ms arbitrary: le tr)
  case Nil
  then show ?case by (simp split: option.splits)
next
  case (Cons m ms)
  let ?r = "gemini_request e tok h m"
  have step: "\<exists>n\<le>length (m # ms). snd (gemini_loop e tok h ms le' (tr @ [HttpPost ?r]))
      = tr @ map (\<lambda>m. HttpPost (gemini_request e tok h m)) (take n (m # ms))" for le'
  proof -
    from Cons.IH [of le' "tr @ [HttpPost ?r]"]
    obtain n where "n \<le> length ms"
      and "snd (gemini_loop e tok h ms le' (tr @ [HttpPost ?r]))
         = (tr @ [HttpPost ?r]) @ map (\<lambda>m. HttpPost (gemini_request e tok h m)) (take n ms)"
      by blast
    then have "Suc n \<le> length (m # ms)"
      and "snd (gemini_loop e tok h ms le' (tr @ [HttpPost ?r]))
         = tr @ map (\<lambda>m. HttpPost (gemini_request e tok h m)) (take (Suc n) (m # ms))"
      by simp_all
    then show ?thesis by blast
  qed
  have one: "\<exists>n\<le>length (m # ms). tr @ [HttpPost ?r]
      = tr @ map (\<lambda>m. HttpPost (gemini_request e tok h m)) (take n (m # ms))"
    by (rule exI [of _ "Suc 0"]) simp
  show ?case
  proof (cases "upstream e (length tr) ?r")
    case (Resolved data)
    then show ?thesis using step [of le] one by (simp add: Let_def)
  next
    case (Rejected err)
    then show ?thesis using step [of "Some err"] by simp
  qed
qed

text \<open>Candidates whose attempt fails are passed over, each after one POST.\<close>

lemma vertex_loop_skip:
  assumes "\<forall>j<length pre. rejected (upstream e (length tr + j) (vertex_request e tok p (pre ! j)))"
  shows "\<exists>le'. vertex_loop e tok p (pre @ rest) le tr
     = vertex_loop e tok p rest le' (tr @ map (\<lambda>m. HttpPost (vertex_request e tok p m)) pre)"
  using assms
proof (induction pre arbitrary: le tr)
  case Nil
  then show ?case by auto
next
  case (Cons a pre)
  let ?r = "vertex_request e tok p a"
  let ?tr = "tr @ [HttpPost ?r]"
  from Cons.prems have a: "rejected (upstream e (length tr) ?r)" by fastforce
  have "\<forall>j<length pre. rejected (upstream e (Suc (length tr) + j) (vertex_request e tok p (pre ! j)))"
    using shift_prefix [where P = "\<lambda>t m. rejected (upstream e t (vertex_request e tok p m))", OF Cons.prems] .
  then have pre: "\<forall>j<length pre. rejected (upstream e (length ?tr + j) (vertex_request e tok p (pre ! j)))"
    by simp
  have "\<exists>le1. vertex_loop e tok p (a # pre @ rest) le tr = vertex_loop e tok p (pre @ rest) le1 ?tr"
    using a by (cases "upstream e (length tr) ?r") (auto simp add: Let_def)
  then obtain le1 where 1: "vertex_loop e tok p (a # pre @ rest) le tr = vertex_loop e tok p (pre @ rest) le1 ?tr"
    by blast
  from Cons.IH [OF pre, of le1] obtain le2 where
    "vertex_loop e tok p (pre @ rest) le1 ?tr
      = vertex_loop e tok p rest le2 (?tr @ map (\<lambda>m. HttpPost (vertex_request e tok p m)) pre)"
    by blast
  with 1 show ?case by auto
qed

lemma gemini_loop_skip:
  assumes "\<forall>j<length pre. without_text (upstream e (length tr + j) (gemini_request e tok h (pre ! j)))"
  shows "\<exists>le'. gemini_loop e tok h (pre @ rest) le tr
     = gemini_loop e tok h rest le' (tr @ map (\<lambda>m. HttpPost (gemini_request e tok h m)) pre)"
  using assms
proof (induction pre arbitrary: le tr)
  case Nil
  then show ?case by auto
next
  case (Cons a pre)
  let ?r = "gemini_request e tok h a"
  let ?tr = "tr @ [HttpPost ?r]"
  from Cons.prems have a: "without_text (upstream e (length tr) ?r)" by fastforce
  have "\<forall>j<length pre. without_text (upstream e (Suc (length tr) + j) (gemini_request e tok h (pre ! j)))"
    using shift_prefix [where P = "\<lambda>t m. without_text (upstream e t (gemini_request e tok h m))", OF Cons.prems] .
  then have pre: "\<forall>j<length pre. without_text (upstream e (length ?tr + j) (gemini_request e tok h (pre ! j)))"
    by simp
  have "\<exists>le1. gemini_loop e tok h (a # pre @ rest) le tr = gemini_loop e tok h (pre @ rest) le1 ?tr"
    using a by (cases "upstream e (length tr) ?r") (auto simp add: Let_def)
  then obtain le1 where 1: "gemini_loop e tok h (a # pre @ rest) le tr = gemini_loop e tok h (pre @ rest) le1 ?tr"
    by blast
  from Cons.IH [OF pre, of le1] obtain le2 where
    "gemini_loop e tok h (pre @ rest) le1 ?tr
      = gemini_loop e tok h rest le2 (?tr @ map (\<lambda>m. HttpPost (gemini_request e tok h m)) pre)"
    by blast
  with 1 show ?case by auto
qed

text \<open>
  In the chat loop a resolved POST without text leaves \<open>lastError\<close> as it was, so a run of
  such attempts ends in the \<open>throw\<close> with the \<open>lastError\<close> it started from.
\<close>

lemma gemini_loop_no_text:
  assumes "\<forall>j<length post. resolved_without_text
      (upstream e (length tr + j) (gemini_request e tok h (post ! j)))"
  shows "gemini_loop e tok h post le tr
     = gemini_loop e tok h [] le (tr @ map (\<lambda>m. HttpPost (gemini_request e tok h m)) post)"
  using assms
proof (induction post arbitrary: tr)
  case Nil
  then show ?case by simp
next
  case (Cons a post)
  let ?r = "gemini_request e tok h a"
  let ?tr = "tr @ [HttpPost ?r]"
  from Cons.prems have a: "resolved_without_text (upstream e (length tr) ?r)" by fastforce
  have "\<forall>j<length post. resolved_without_text
      (upstream e (Suc (length tr) + j) (gemini_request e tok h (post ! j)))"
    using shift_prefix [where P = "\<lambda>t m. resolved_without_text (upstream e t (gemini_request e tok h m))",
        OF Cons.prems] .
  then have post: "\<forall>j<length post. resolved_without_text
      (upstream e (length ?tr + j) (gemini_request e tok h (post ! j)))"
    by simp
  have "gemini_loop e tok h (a # post) le tr = gemini_loop e tok h post le ?tr"
    using a by (cases "upstream e (length tr) ?r") (auto simp add: Let_def)
  with Cons.IH [OF post] show ?case by simp
qed

lemma vertex_loop_first_resolved:
  assumes pre: "\<forall>j<length pre. rejected (upstream e (length tr + j) (vertex_request e tok p (pre ! j)))"
    and m: "upstream e (length tr + length pre) (vertex_request e tok p m) = Resolved data"
  shows "vertex_loop e tok p (pre @ m # post) le tr
     = (Inr data, tr @ map (\<lambda>m. HttpPost (vertex_request e tok p m)) (pre @ [m]))"
proof -
  let ?P = "\<lambda>m. HttpPost (vertex_request e tok p m)"
  from vertex_loop_skip [OF pre, of "m # post" le] obtain le' where
    1: "vertex_loop e tok p (pre @ m # post) le tr = vertex_loop e tok p (m # post) le' (tr @ map ?P pre)"
    by blast
  from m have "vertex_loop e tok p (m # post) le' (tr @ map ?P pre) = (Inr data, tr @ map ?P pre @ [?P m])"
    by simp
  with 1 show ?thesis by simp
qed

lemma vertex_loop_last_rejection:
  assumes pre: "\<forall>j<length pre. rejected (upstream e (length tr + j) (vertex_request e tok p (pre ! j)))"
    and m: "upstream e (length tr + length pre) (vertex_request e tok p m) = Rejected err"
  shows "vertex_loop e tok p (pre @ [m]) le tr
     = (Inl err, tr @ map (\<lambda>m. HttpPost (vertex_request e tok p m)) (pre @ [m]))"
proof -
  let ?P = "\<lambda>m. HttpPost (vertex_request e tok p m)"
  from vertex_loop_skip [OF pre, of "[m]" le] obtain le' where
    1: "vertex_loop e tok p (pre @ [m]) le tr = vertex_loop e tok p [m] le' (tr @ map ?P pre)"
    by blast
  from m have "vertex_loop e tok p [m] le' (tr @ map ?P pre) = (Inl err, tr @ map ?P pre @ [?P m])"
    by simp
  with 1 show ?thesis by simp
qed

lemma gemini_loop_first_text:
  assumes pre: "\<forall>j<length pre. without_text (upstream e (length tr + j) (gemini_request e tok h (pre ! j)))"
    and m: "upstream e (length tr + length pre) (gemini_request e tok h m) = Resolved data"
    and usable: "truthy (inline_text data)"
  shows "gemini_loop e tok h (pre @ m # post) le tr
     = (Inr (inline_text data), tr @ map (\<lambda>m. HttpPost (gemini_request e tok h m)) (pre @ [m]))"
proof -
  let ?P = "\<lambda>m. HttpPost (gemini_request e tok h m)"
  from gemini_loop_skip [OF pre, of "m # post" le] obtain le' where
    1: "gemini_loop e tok h (pre @ m # post) le tr = gemini_loop e tok h (m # post) le' (tr @ map ?P pre)"
    by blast
  from m usable have "gemini_loop e tok h (m # post) le' (tr @ map ?P pre)
     = (Inr (inline_text data), tr @ map ?P pre @ [?P m])"
    by simp
  with 1 show ?thesis by simp
qed

lemma gemini_loop_last_rejection:
  assumes pre: "\<forall>j<length pre. without_text (upstream e (length tr + j) (gemini_request e tok h (pre ! j)))"
    and m: "upstream e (length tr + length pre) (gemini_request e tok h m) = Rejected err"
    and post: "\<forall>j<length post. resolved_without_text
        (upstream e (Suc (length tr + length pre) + j) (gemini_request e tok h (post ! j)))"
  shows "gemini_loop e tok h (pre @ m # post) le tr
     = (Inl err, tr @ map (\<lambda>m. HttpPost (gemini_request e tok h m)) (pre @ m # post))"
proof -
  let ?P = "\<lambda>m. HttpPost (gemini_request e tok h m)"
  from gemini_loop_skip [OF pre, of "m # post" le] obtain le' where
    1: "gemini_loop e tok h (pre @ m # post) le tr = gemini_loop e tok h (m # post) le' (tr @ map ?P pre)"
    by blast
  from m have 2: "gemini_loop e tok h (m # post) le' (tr @ map ?P pre)
     = gemini_loop e tok h post (Some err) (tr @ map ?P pre @ [?P m])"
    by simp
  from post have "\<forall>j<length post. resolved_without_text
        (upstream e (length (tr @ map ?P pre @ [?P m]) + j) (gemini_request e tok h (post ! j)))"
    by simp
  from gemini_loop_no_text [OF this, of "Some err"]
  have "gemini_loop e tok h post (Some err) (tr @ map ?P pre @ [?P m])
     = (Inl err, (tr @ map ?P pre @ [?P m]) @ map ?P post)"
    by simp
  with 1 2 show ?thesis by simp
qed

text \<open>
  The trace of a whole call: one credential fetch, then POSTs only, each built from the
  token that the fetch returned.
\<close>

lemma fetches_posts: "fetches (tr @ TokenFetch # map HttpPost rs) = Suc (fetches tr)"
  by (simp add: fetches_def)

lemma vertex_trace:
  "\<exists>rs. snd (generateWithVertexAI_on ms e p tr) = tr @ TokenFetch # map HttpPost rs
     \<and> (\<forall>r\<in>set rs. \<exists>tok m. idp e (length tr) = Inr tok \<and> r = vertex_request e tok p m)"
proof (cases "idp e (length tr)")
  case (Inl msg)
  then have "snd (generateWithVertexAI_on ms e p tr) = tr @ TokenFetch # map HttpPost []"
    by (simp add: generateWithVertexAI_on_def getAccessToken_def)
  then show ?thesis by (intro exI [of _ "[]"]) simp
next
  case (Inr tok)
  from vertex_loop_trace [of ms e tok p None "tr @ [TokenFetch]"] obtain n where
    "snd (vertex_loop e tok p ms None (tr @ [TokenFetch]))
      = (tr @ [TokenFetch]) @ map (\<lambda>m. HttpPost (vertex_request e tok p m)) (take n ms)"
    by blast
  with Inr have "snd (generateWithVertexAI_on ms e p tr)
      = tr @ TokenFetch # map HttpPost (map (vertex_request e tok p) (take n ms))"
    by (simp add: generateWithVertexAI_on_def getAccessToken_def comp_def)
  moreover have "\<forall>r\<in>set (map (vertex_request e tok p) (take n ms)).
      \<exists>tok' m. idp e (length tr) = Inr tok' \<and> r = vertex_request e tok' p m"
    using Inr by auto
  ultimately show ?thesis by blast
qed

lemma gemini_trace:
  "\<exists>rs. snd (callGeminiAPI_on ms e h tr) = tr @ TokenFetch # map HttpPost rs
     \<and> (\<forall>r\<in>set rs. \<exists>tok m. idp e (length tr) = Inr tok \<and> r = gemini_request e tok h m)"
proof (cases "idp e (length tr)")
  case (Inl msg)
  then have "snd (callGeminiAPI_on ms e h tr) = tr @ TokenFetch # map HttpPost []"
    by (simp add: callGeminiAPI_on_def getAccessToken_def)
  then show ?thesis by (intro exI [of _ "[]"]) simp
next
  case (Inr tok)
  from gemini_loop_trace [of ms e tok h None "tr @ [TokenFetch]"] obtain n where
    "snd (gemini_loop e tok h ms None (tr @ [TokenFetch]))
      = (tr @ [TokenFetch]) @ map (\<lambda>m. HttpPost (gemini_request e tok h m)) (take n ms)"
    by blast
  with Inr have "snd (callGeminiAPI_on ms e h tr)
      = tr @ TokenFetch # map HttpPost (map (gemini_request e tok h) (take n ms))"
    by (simp add: callGeminiAPI_on_def getAccessToken_def comp_def)
  moreover have "\<forall>r\<in>set (map (gemini_request e tok h) (take n ms)).
      \<exists>tok' m. idp e (length tr) = Inr tok' \<and> r = gemini_request e tok' h m"
    using Inr by auto
  ultimately show ?thesis by blast
qed

text \<open>Every POST of a chat request carries the assembled history as its \<open>contents\<close>.\<close>

lemma chat_fields_posts:
  assumes "HttpPost r \<in> set (drop (length tr) (snd (chat_fields e now sid message h tr)))"
  shows "get ''contents'' (payload r) = JArr (geminiHistory h message)"
proof (cases "\<not> truthy sid \<or> \<not> truthy message
    \<or> \<not> stringifiable sid \<or> \<not> stringifiable message")
  case True
  with assms show ?thesis by (auto simp add: chat_fields_def)
next
  case False
  from gemini_trace [of gemini_modelNames e "geminiHistory h message" tr] obtain rs where
    rs: "snd (callGeminiAPI e (geminiHistory h message) tr) = tr @ TokenFetch # map HttpPost rs"
    and shape: "\<forall>r\<in>set rs. \<exists>tok m. idp e (length tr) = Inr tok
        \<and> r = gemini_request e tok (geminiHistory h message) m"
    by (auto simp add: callGeminiAPI_def)
  from False have "snd (chat_fields e now sid message h tr)
     = snd (callGeminiAPI e (geminiHistory h message) tr)"
    by (simp add: chat_fields_def split: prod.splits sum.splits)
  with assms rs have "r \<in> set rs" by auto
  with shape obtain tok m where "r = gemini_request e tok (geminiHistory h message) m" by blast
  then show ?thesis by (simp add: gemini_request_def)
qed

lemma truthy_get_object: "truthy (get k body) \<Longrightarrow> body \<noteq> JUndefined \<and> body \<noteq> JNull"
  by (cases body) auto

text \<open>The scenarios, evaluated.\<close>

lemma world_simps [simp]:
  "idp (world tokens answers) t = tokens t"
  "upstream (world tokens answers) t r = answers t"
  by (simp_all add: world_def)

lemma envelope_text [simp]:
  "extractAiText (text_envelope s) = or_null (JStr s)"
  "inline_text (text_envelope s) = or_null (JStr s)"
  "extractAiText empty_envelope = JNull"
  "inline_text empty_envelope = JNull"
  by (simp_all add: extractAiText_def inline_text_def text_envelope_def empty_envelope_def
      or_null_def)

section \<open>Properties of the Generation Invoker\<close>

text \<open>
  Claim C1, as the code has it. Let the candidate list be \<open>pre @ m # post\<close>, so that \<open>m\<close>
  is candidate \<open>k = length pre + 1\<close>, and let the token fetch succeed. On the
  recommendation path, if the POST of every candidate of \<open>pre\<close> is rejected (a status
  other than 2xx, a transport error or the timeout) and the POST of \<open>m\<close> resolves with a
  body from which \<open>extractAiText\<close> gets usable text, the call issues exactly the \<open>k\<close>
  POSTs of \<open>pre @ [m]\<close>, one per candidate and in list order, none for \<open>post\<close>, and
  yields the text of \<open>m\<close>. On the chat path the same holds, and there a candidate of \<open>pre\<close>
  may also fail by a resolved POST without usable text. (On the recommendation path a
  resolved POST without usable text is not passed over: see C4.)
\<close>

theorem fallback_first_usable:
  assumes "idp e (length tr) = Inr tok"
  shows "((\<forall>j<length pre. rejected
              (upstream e (Suc (length tr) + j) (vertex_request e tok prompt (pre ! j))))
          \<and> upstream e (Suc (length tr) + length pre) (vertex_request e tok prompt m) = Resolved data
          \<and> truthy (extractAiText data)
        \<longrightarrow> generateRecommendations_on (pre @ m # post) e prompt tr
            = (Recommendations (extractAiText data),
               tr @ TokenFetch # map (\<lambda>n. HttpPost (vertex_request e tok prompt n)) (pre @ [m])))
     \<and> ((\<forall>j<length pre. without_text
              (upstream e (Suc (length tr) + j) (gemini_request e tok h (pre ! j))))
          \<and> upstream e (Suc (length tr) + length pre) (gemini_request e tok h m) = Resolved data
          \<and> truthy (inline_text data)
        \<longrightarrow> callGeminiAPI_on (pre @ m # post) e h tr
            = (Inr (inline_text data),
               tr @ TokenFetch # map (\<lambda>n. HttpPost (gemini_request e tok h n)) (pre @ [m])))"
proof (intro conjI impI)
  assume a: "(\<forall>j<length pre. rejected
              (upstream e (Suc (length tr) + j) (vertex_request e tok prompt (pre ! j))))
          \<and> upstream e (Suc (length tr) + length pre) (vertex_request e tok prompt m) = Resolved data
          \<and> truthy (extractAiText data)"
  then have "\<forall>j<length pre. rejected
      (upstream e (length (tr @ [TokenFetch]) + j) (vertex_request e tok prompt (pre ! j)))"
    and "upstream e (length (tr @ [TokenFetch]) + length pre) (vertex_request e tok prompt m)
      = Resolved data"
    by simp_all
  from vertex_loop_first_resolved [OF this, of post None]
  have "generateWithVertexAI_on (pre @ m # post) e prompt tr
     = (Inr data, tr @ TokenFetch # map (\<lambda>n. HttpPost (vertex_request e tok prompt n)) (pre @ [m]))"
    using assms by (simp add: generateWithVertexAI_on_def getAccessToken_def)
  with a show "generateRecommendations_on (pre @ m # post) e prompt tr
            = (Recommendations (extractAiText data),
               tr @ TokenFetch # map (\<lambda>n. HttpPost (vertex_request e tok prompt n)) (pre @ [m]))"
    by (simp add: generateRecommendations_on_def)
next
  assume a: "(\<forall>j<length pre. without_text
              (upstream e (Suc (length tr) + j) (gemini_request e tok h (pre ! j))))
          \<and> upstream e (Suc (length tr) + length pre) (gemini_request e tok h m) = Resolved data
          \<and> truthy (inline_text data)"
  then have "\<forall>j<length pre. without_text
      (upstream e (length (tr @ [TokenFetch]) + j) (gemini_request e tok h (pre ! j)))"
    and "upstream e (length (tr @ [TokenFetch]) + length pre) (gemini_request e tok h m)
      = Resolved data"
    and "truthy (inline_text data)"
    by simp_all
  from gemini_loop_first_text [OF this, of post None]
  show "callGeminiAPI_on (pre @ m # post) e h tr
            = (Inr (inline_text data),
               tr @ TokenFetch # map (\<lambda>n. HttpPost (gemini_request e tok h n)) (pre @ [m]))"
    using assms by (simp add: callGeminiAPI_on_def getAccessToken_def)
qed

text \<open>
  The scenario of the specification: candidates A and B, A answers 429, B answers 200
  with the text "Drink water.". Both paths issue two calls and yield the text.
\<close>

theorem fallback_first_usable_witness:
  "generateRecommendations_on [''A'', ''B''] busy_then_text ''advise'' []
    = (Recommendations (JStr ''Drink water.''),
       [TokenFetch,
        HttpPost (vertex_request busy_then_text (Token ''ya29'') ''advise'' ''A''),
        HttpPost (vertex_request busy_then_text (Token ''ya29'') ''advise'' ''B'')])
   \<and> callGeminiAPI_on [''A'', ''B''] busy_then_text [user_turn (JStr ''hello'')] []
    = (Inr (JStr ''Drink water.''),
       [TokenFetch,
        HttpPost (gemini_request busy_then_text (Token ''ya29'') [user_turn (JStr ''hello'')] ''A''),
        HttpPost (gemini_request busy_then_text (Token ''ya29'') [user_turn (JStr ''hello'')] ''B'')])"
  using fallback_first_usable
    [where e = busy_then_text and tr = "[]" and tok = "Token ''ya29''" and pre = "[''A'']"
       and prompt = "''advise''" and m = "''B''" and data = "text_envelope ''Drink water.''"
       and post = "[]" and h = "[user_turn (JStr ''hello'')]"]
  by (simp add: busy_then_text_def or_null_def)

text \<open>
  With "fails" read as the specification defines it (a rejected call or a 2xx answer
  without extractable text), the claim does not hold on the recommendation path. The
  first configured candidate answers 200 with \<open>{candidates: []}\<close>, from which the extractor
  gets nothing; every later candidate would answer with the text "Drink water.". The call
  issues one POST, not two, and ends without content.
\<close>

theorem absent_content_stops_recommendation_counterexample:
  "upstream empty_then_text 1
       (vertex_request empty_then_text (Token ''ya29'') ''advise'' ''gemini-2.5-pro'')
     = Resolved empty_envelope
   \<and> extractAiText empty_envelope = JNull
   \<and> upstream empty_then_text 2
       (vertex_request empty_then_text (Token ''ya29'') ''advise'' ''gemini-2.5-flash'')
     = Resolved (text_envelope ''Drink water.'')
   \<and> extractAiText (text_envelope ''Drink water.'') = JStr ''Drink water.''
   \<and> generateRecommendations_on vertex_modelNames empty_then_text ''advise'' []
     = (NoContent empty_envelope,
        [TokenFetch,
         HttpPost (vertex_request empty_then_text (Token ''ya29'') ''advise'' ''gemini-2.5-pro'')])"
  by (simp add: generateRecommendations_on_def generateWithVertexAI_on_def getAccessToken_def
      vertex_modelNames_def empty_then_text_def or_null_def)

text \<open>
  Claim C2. If the token fetch fails, either path throws an authentication error (the
  recommendation path wraps the message once more) and the only effect of the call is
  the fetch itself: no POST is issued, whatever the candidate list.
\<close>

theorem auth_failure_no_posts:
  assumes "idp e (length tr) = Inl msg"
  shows "generateWithVertexAI_on ms e prompt tr
       = (Inl (new_Error (''Failed to authenticate with Google Cloud: Authentication failed: '' @ msg)),
          tr @ [TokenFetch])
     \<and> callGeminiAPI_on ms' e h tr
       = (Inl (new_Error (''Authentication failed: '' @ msg)), tr @ [TokenFetch])"
  using assms
  by (simp add: generateWithVertexAI_on_def callGeminiAPI_on_def getAccessToken_def new_Error_def)

theorem auth_failure_no_posts_witness:
  "generateWithVertexAI no_credentials ''advise'' []
    = (Inl (new_Error (''Failed to authenticate with Google Cloud: Authentication failed: ''
             @ ''Could not load the default credentials'')), [TokenFetch])
   \<and> callGeminiAPI no_credentials [user_turn (JStr ''hello'')] []
    = (Inl (new_Error (''Authentication failed: '' @ ''Could not load the default credentials'')),
       [TokenFetch])"
  using auth_failure_no_posts
    [where e = no_credentials and tr = "[]" and msg = "''Could not load the default credentials''"
       and ms = vertex_modelNames and prompt = "''advise''" and ms' = gemini_modelNames
       and h = "[user_turn (JStr ''hello'')]"]
  by (simp add: generateWithVertexAI_def callGeminiAPI_def no_credentials_def)

text \<open>
  Claim C3, as the code has it. Let the token fetch succeed. On the recommendation path,
  if the POST of every candidate is rejected, the invoker throws the error of the last
  candidate, after one POST per candidate. On the chat path only a rejected POST is
  recorded: if every candidate fails, by a rejected POST or by a resolved POST without
  usable text, the invoker throws the error of the last candidate whose POST was
  rejected (the last candidate's own when its POST is rejected), and the generic error
  "All Gemini models failed" when no POST was rejected.
\<close>

theorem exhausted_last_rejection:
  assumes "idp e (length tr) = Inr tok"
  shows "((\<forall>j<length pre. rejected
              (upstream e (Suc (length tr) + j) (vertex_request e tok prompt (pre ! j))))
          \<and> upstream e (Suc (length tr) + length pre) (vertex_request e tok prompt m) = Rejected err
        \<longrightarrow> generateWithVertexAI_on (pre @ [m]) e prompt tr
            = (Inl err, tr @ TokenFetch # map (\<lambda>n. HttpPost (vertex_request e tok prompt n)) (pre @ [m])))
     \<and> ((\<forall>j<length pre. without_text
              (upstream e (Suc (length tr) + j) (gemini_request e tok h (pre ! j))))
          \<and> upstream e (Suc (length tr) + length pre) (gemini_request e tok h m) = Rejected err
          \<and> (\<forall>j<length post. resolved_without_text
              (upstream e (Suc (Suc (length tr)) + length pre + j) (gemini_request e tok h (post ! j))))
        \<longrightarrow> callGeminiAPI_on (pre @ m # post) e h tr
            = (Inl err, tr @ TokenFetch # map (\<lambda>n. HttpPost (gemini_request e tok h n)) (pre @ m # post)))
     \<and> ((\<forall>j<length ms. resolved_without_text
              (upstream e (Suc (length tr) + j) (gemini_request e tok h (ms ! j))))
        \<longrightarrow> callGeminiAPI_on ms e h tr
            = (Inl (new_Error ''All Gemini models failed''),
               tr @ TokenFetch # map (\<lambda>n. HttpPost (gemini_request e tok h n)) ms))"
proof (intro conjI impI)
  assume a: "(\<forall>j<length pre. rejected
              (upstream e (Suc (length tr) + j) (vertex_request e tok prompt (pre ! j))))
          \<and> upstream e (Suc (length tr) + length pre) (vertex_request e tok prompt m) = Rejected err"
  then have "\<forall>j<length pre. rejected
      (upstream e (length (tr @ [TokenFetch]) + j) (vertex_request e tok prompt (pre ! j)))"
    and "upstream e (length (tr @ [TokenFetch]) + length pre) (vertex_request e tok prompt m)
      = Rejected err"
    by simp_all
  from vertex_loop_last_rejection [OF this, of None]
  show "generateWithVertexAI_on (pre @ [m]) e prompt tr
     = (Inl err, tr @ TokenFetch # map (\<lambda>n. HttpPost (vertex_request e tok prompt n)) (pre @ [m]))"
    using assms by (simp add: generateWithVertexAI_on_def getAccessToken_def)
next
  assume a: "(\<forall>j<length pre. without_text
              (upstream e (Suc (length tr) + j) (gemini_request e tok h (pre ! j))))
          \<and> upstream e (Suc (length tr) + length pre) (gemini_request e tok h m) = Rejected err
          \<and> (\<forall>j<length post. resolved_without_text
              (upstream e (Suc (Suc (length tr)) + length pre + j) (gemini_request e tok h (post ! j))))"
  then have "\<forall>j<length pre. without_text
      (upstream e (length (tr @ [TokenFetch]) + j) (gemini_request e tok h (pre ! j)))"
    and "upstream e (length (tr @ [TokenFetch]) + length pre) (gemini_request e tok h m)
      = Rejected err"
    and "\<forall>j<length post. resolved_without_text
      (upstream e (Suc (length (tr @ [TokenFetch]) + length pre) + j) (gemini_request e tok h (post ! j)))"
    by simp_all
  from gemini_loop_last_rejection [OF this, of None]
  show "callGeminiAPI_on (pre @ m # post) e h tr
     = (Inl err, tr @ TokenFetch # map (\<lambda>n. HttpPost (gemini_request e tok h n)) (pre @ m # post))"
    using assms by (simp add: callGeminiAPI_on_def getAccessToken_def)
next
  assume "\<forall>j<length ms. resolved_without_text
              (upstream e (Suc (length tr) + j) (gemini_request e tok h (ms ! j)))"
  then have "\<forall>j<length ms. resolved_without_text
      (upstream e (length (tr @ [TokenFetch]) + j) (gemini_request e tok h (ms ! j)))"
    by simp
  from gemini_loop_no_text [OF this, of None]
  show "callGeminiAPI_on ms e h tr
     = (Inl (new_Error ''All Gemini models failed''),
        tr @ TokenFetch # map (\<lambda>n. HttpPost (gemini_request e tok h n)) ms)"
    using assms by (simp add: callGeminiAPI_on_def getAccessToken_def)
qed

text \<open>
  The first candidate answers 429 and every later one 503: both paths try every
  configured candidate and throw the 503 of the last one. Where every candidate
  answers 200 with \<open>{candidates: []}\<close>, the chat path throws the generic error.
\<close>

theorem exhausted_last_rejection_witness:
  "generateWithVertexAI busy_then_down ''advise'' []
    = (Inl status_503,
       TokenFetch # map (\<lambda>n. HttpPost (vertex_request busy_then_down (Token ''ya29'') ''advise'' n))
         vertex_modelNames)
   \<and> callGeminiAPI busy_then_down [user_turn (JStr ''hello'')] []
    = (Inl status_503,
       TokenFetch # map (\<lambda>n. HttpPost
           (gemini_request busy_then_down (Token ''ya29'') [user_turn (JStr ''hello'')] n))
         gemini_modelNames)
   \<and> callGeminiAPI always_empty [user_turn (JStr ''hello'')] []
    = (Inl (new_Error ''All Gemini models failed''),
       TokenFetch # map (\<lambda>n. HttpPost
           (gemini_request always_empty (Token ''ya29'') [user_turn (JStr ''hello'')] n))
         gemini_modelNames)"
  using exhausted_last_rejection
    [where e = busy_then_down and tr = "[]" and tok = "Token ''ya29''"
       and pre = "[''gemini-2.5-pro'', ''gemini-2.5-flash'', ''gemini-1.5-flash'']"
       and m = "''gemini-1.5-pro''" and prompt = "''advise''" and err = status_503
       and h = "[user_turn (JStr ''hello'')]" and post = "[]" and ms = "[]"]
    exhausted_last_rejection
    [where e = busy_then_down and tr = "[]" and tok = "Token ''ya29''"
       and pre = "[''gemini-2.0-flash-exp'', ''gemini-1.5-flash'']"
       and m = "''gemini-1.5-pro''" and prompt = "''advise''" and err = status_503
       and h = "[user_turn (JStr ''hello'')]" and post = "[]" and ms = "[]"]
    exhausted_last_rejection
    [where e = always_empty and tr = "[]" and tok = "Token ''ya29''"
       and pre = "[]" and m = "''gemini-1.5-pro''" and prompt = "''advise''" and err = status_503
       and h = "[user_turn (JStr ''hello'')]" and post = "[]" and ms = gemini_modelNames]
  by (simp add: generateWithVertexAI_def callGeminiAPI_def vertex_modelNames_def
      gemini_modelNames_def busy_then_down_def always_empty_def status_429_def status_503_def
      All_less_Suc numeral_3_eq_3)

text \<open>
  On the chat path every candidate fails, the first by a 429 and the two after it by a
  200 without text, and the error thrown is the first candidate's, not the failure of
  the last attempted one.
\<close>

theorem exhausted_first_rejection_counterexample:
  "upstream busy_then_empty 1
       (gemini_request busy_then_empty (Token ''ya29'') [user_turn (JStr ''hello'')] ''gemini-2.0-flash-exp'')
     = Rejected status_429
   \<and> upstream busy_then_empty 3
       (gemini_request busy_then_empty (Token ''ya29'') [user_turn (JStr ''hello'')] ''gemini-1.5-pro'')
     = Resolved empty_envelope
   \<and> inline_text empty_envelope = JNull
   \<and> callGeminiAPI busy_then_empty [user_turn (JStr ''hello'')] []
     = (Inl status_429,
        TokenFetch # map (\<lambda>n. HttpPost
            (gemini_request busy_then_empty (Token ''ya29'') [user_turn (JStr ''hello'')] n))
          gemini_modelNames)"
  by (simp add: callGeminiAPI_def callGeminiAPI_on_def getAccessToken_def gemini_modelNames_def
      busy_then_empty_def)

text \<open>
  Claim C4, as the code has it. A resolved POST without usable text is not recorded as
  the last error on either path. On the chat path the loop goes on to the next
  candidate with \<open>lastError\<close> unchanged. On the recommendation path the invoker returns
  the body of the first resolved POST whatever it holds, so the call ends at that
  candidate: the handler finds no text in the body and answers that there is no
  content, and no later candidate is tried.
\<close>

theorem absent_content_handling:
  "(upstream e (length tr) (gemini_request e tok h m) = Resolved data \<and> \<not> truthy (inline_text data)
      \<longrightarrow> gemini_loop e tok h (m # rest) lastError tr
          = gemini_loop e tok h rest lastError (tr @ [HttpPost (gemini_request e tok h m)]))
   \<and> (idp e (length tr) = Inr tok
       \<and> (\<forall>j<length pre. rejected
              (upstream e (Suc (length tr) + j) (vertex_request e tok prompt (pre ! j))))
       \<and> upstream e (Suc (length tr) + length pre) (vertex_request e tok prompt m) = Resolved data
       \<and> \<not> truthy (extractAiText data)
      \<longrightarrow> generateRecommendations_on (pre @ m # post) e prompt tr
          = (NoContent data,
             tr @ TokenFetch # map (\<lambda>n. HttpPost (vertex_request e tok prompt n)) (pre @ [m])))"
proof (intro conjI impI)
  assume "upstream e (length tr) (gemini_request e tok h m) = Resolved data
    \<and> \<not> truthy (inline_text data)"
  then show "gemini_loop e tok h (m # rest) lastError tr
          = gemini_loop e tok h rest lastError (tr @ [HttpPost (gemini_request e tok h m)])"
    by simp
next
  assume a: "idp e (length tr) = Inr tok
       \<and> (\<forall>j<length pre. rejected
              (upstream e (Suc (length tr) + j) (vertex_request e tok prompt (pre ! j))))
       \<and> upstream e (Suc (length tr) + length pre) (vertex_request e tok prompt m) = Resolved data
       \<and> \<not> truthy (extractAiText data)"
  then have "\<forall>j<length pre. rejected
      (upstream e (length (tr @ [TokenFetch]) + j) (vertex_request e tok prompt (pre ! j)))"
    and "upstream e (length (tr @ [TokenFetch]) + length pre) (vertex_request e tok prompt m)
      = Resolved data"
    by simp_all
  from vertex_loop_first_resolved [OF this, of post None]
  have "generateWithVertexAI_on (pre @ m # post) e prompt tr
     = (Inr data, tr @ TokenFetch # map (\<lambda>n. HttpPost (vertex_request e tok prompt n)) (pre @ [m]))"
    using a by (simp add: generateWithVertexAI_on_def getAccessToken_def)
  with a show "generateRecommendations_on (pre @ m # post) e prompt tr
          = (NoContent data,
             tr @ TokenFetch # map (\<lambda>n. HttpPost (vertex_request e tok prompt n)) (pre @ [m]))"
    by (simp add: generateRecommendations_on_def)
qed

text \<open>
  The first candidate answers 429, the second 200 with \<open>{candidates: []}\<close>, the third
  would answer with text. The chat loop, at the second candidate with the 429 in
  \<open>lastError\<close>, goes on to the third with the 429 still there; the recommendation call
  ends at the second candidate without content.
\<close>

theorem absent_content_handling_witness:
  "gemini_loop busy_empty_text (Token ''ya29'') [user_turn (JStr ''hello'')]
       [''gemini-1.5-flash'', ''gemini-1.5-pro''] (Some status_429)
       [TokenFetch, HttpPost (gemini_request busy_empty_text (Token ''ya29'')
          [user_turn (JStr ''hello'')] ''gemini-2.0-flash-exp'')]
     = gemini_loop busy_empty_text (Token ''ya29'') [user_turn (JStr ''hello'')]
       [''gemini-1.5-pro''] (Some status_429)
       [TokenFetch,
        HttpPost (gemini_request busy_empty_text (Token ''ya29'')
          [user_turn (JStr ''hello'')] ''gemini-2.0-flash-exp''),
        HttpPost (gemini_request busy_empty_text (Token ''ya29'')
          [user_turn (JStr ''hello'')] ''gemini-1.5-flash'')]
   \<and> generateRecommendations_on vertex_modelNames busy_empty_text ''advise'' []
     = (NoContent empty_envelope,
        [TokenFetch,
         HttpPost (vertex_request busy_empty_text (Token ''ya29'') ''advise'' ''gemini-2.5-pro''),
         HttpPost (vertex_request busy_empty_text (Token ''ya29'') ''advise'' ''gemini-2.5-flash'')])"
  using absent_content_handling
    [where e = busy_empty_text and tok = "Token ''ya29''" and h = "[user_turn (JStr ''hello'')]"
       and tr = "[TokenFetch, HttpPost (gemini_request busy_empty_text (Token ''ya29'')
          [user_turn (JStr ''hello'')] ''gemini-2.0-flash-exp'')]"
       and m = "''gemini-1.5-flash''" and rest = "[''gemini-1.5-pro'']"
       and lastError = "Some status_429" and data = empty_envelope
       and pre = "[]" and post = "[]" and prompt = "''advise''"]
    absent_content_handling
    [where e = busy_empty_text and tok = "Token ''ya29''" and h = "[user_turn (JStr ''hello'')]"
       and tr = "[]" and m = "''gemini-2.5-flash''" and rest = "[]"
       and lastError = None and data = empty_envelope
       and pre = "[''gemini-2.5-pro'']" and post = "[''gemini-1.5-flash'', ''gemini-1.5-pro'']"
       and prompt = "''advise''"]
  by (simp add: vertex_modelNames_def busy_empty_text_def)

text \<open>
  Every candidate of the chat path answers 200 without text, and the error thrown is
  the generic one of an empty \<open>lastError\<close>: none of the three outcomes was recorded.
  On the recommendation path the second candidate answers 200 without text and the
  third would answer with text; the call ends without content after two POSTs and the
  third candidate is never tried.
\<close>

theorem absent_content_not_recorded_counterexample:
  "callGeminiAPI always_empty [user_turn (JStr ''hello'')] []
     = (Inl (new_Error ''All Gemini models failed''),
        TokenFetch # map (\<lambda>n. HttpPost
            (gemini_request always_empty (Token ''ya29'') [user_turn (JStr ''hello'')] n))
          gemini_modelNames)
   \<and> upstream busy_empty_text 3
       (vertex_request busy_empty_text (Token ''ya29'') ''advise'' ''gemini-1.5-flash'')
     = Resolved (text_envelope ''Drink water.'')
   \<and> generateRecommendations_on vertex_modelNames busy_empty_text ''advise'' []
     = (NoContent empty_envelope,
        [TokenFetch,
         HttpPost (vertex_request busy_empty_text (Token ''ya29'') ''advise'' ''gemini-2.5-pro''),
         HttpPost (vertex_request busy_empty_text (Token ''ya29'') ''advise'' ''gemini-2.5-flash'')])"
  by (simp add: callGeminiAPI_def callGeminiAPI_on_def generateRecommendations_on_def
      generateWithVertexAI_on_def getAccessToken_def gemini_modelNames_def vertex_modelNames_def
      always_empty_def busy_empty_text_def)

text \<open>
  Claim C8. Whatever was done before (the trace \<open>tr\<close>), a call of either invoker adds
  to the trace exactly one credential fetch, as its first effect, followed by POSTs
  only; no token is carried over from an earlier call, and every POST of the call
  carries the token that this one fetch returned: its \<open>Authorization\<close> header is
  "Bearer " followed by that token.
\<close>

theorem one_token_fetch_per_call:
  "(\<exists>rs. snd (generateWithVertexAI_on ms e prompt tr) = tr @ TokenFetch # map HttpPost rs
       \<and> (\<forall>r\<in>set rs. \<exists>tok. idp e (length tr) = Inr tok
             \<and> authorization r =
               (case tok of Token t \<Rightarrow> ''Bearer '' @ t
                | TokenNull \<Rightarrow> ''Bearer null''
                | TokenUndefined \<Rightarrow> ''Bearer undefined'')))
   \<and> (\<exists>rs. snd (callGeminiAPI_on ms e h tr) = tr @ TokenFetch # map HttpPost rs
       \<and> (\<forall>r\<in>set rs. \<exists>tok. idp e (length tr) = Inr tok
             \<and> authorization r =
               (case tok of Token t \<Rightarrow> ''Bearer '' @ t
                | TokenNull \<Rightarrow> ''Bearer null''
                | TokenUndefined \<Rightarrow> ''Bearer undefined'')))
   \<and> fetches (snd (generateWithVertexAI_on ms e prompt tr)) = Suc (fetches tr)
   \<and> fetches (snd (callGeminiAPI_on ms e h tr)) = Suc (fetches tr)"
proof -
  from vertex_trace [of ms e prompt tr] obtain rs where
    rs: "snd (generateWithVertexAI_on ms e prompt tr) = tr @ TokenFetch # map HttpPost rs"
    and rs_tok: "\<forall>r\<in>set rs. \<exists>tok m. idp e (length tr) = Inr tok \<and> r = vertex_request e tok prompt m"
    by blast
  from gemini_trace [of ms e h tr] obtain gs where
    gs: "snd (callGeminiAPI_on ms e h tr) = tr @ TokenFetch # map HttpPost gs"
    and gs_tok: "\<forall>r\<in>set gs. \<exists>tok m. idp e (length tr) = Inr tok \<and> r = gemini_request e tok h m"
    by blast
  have header: "bearer tok =
               (case tok of Token t \<Rightarrow> ''Bearer '' @ t
                | TokenNull \<Rightarrow> ''Bearer null''
                | TokenUndefined \<Rightarrow> ''Bearer undefined'')" for tok
    by (cases tok) simp_all
  have "\<forall>r\<in>set rs. \<exists>tok. idp e (length tr) = Inr tok
             \<and> authorization r =
               (case tok of Token t \<Rightarrow> ''Bearer '' @ t
                | TokenNull \<Rightarrow> ''Bearer null''
                | TokenUndefined \<Rightarrow> ''Bearer undefined'')"
  proof
    fix r assume "r \<in> set rs"
    with rs_tok obtain tok m where "idp e (length tr) = Inr tok" and "r = vertex_request e tok prompt m"
      by blast
    then have "idp e (length tr) = Inr tok \<and> authorization r = bearer tok"
      by (simp add: vertex_request_def)
    then show "\<exists>tok. idp e (length tr) = Inr tok
             \<and> authorization r =
               (case tok of Token t \<Rightarrow> ''Bearer '' @ t
                | TokenNull \<Rightarrow> ''Bearer null''
                | TokenUndefined \<Rightarrow> ''Bearer undefined'')"
      unfolding header by blast
  qed
  moreover have "\<forall>r\<in>set gs. \<exists>tok. idp e (length tr) = Inr tok
             \<and> authorization r =
               (case tok of Token t \<Rightarrow> ''Bearer '' @ t
                | TokenNull \<Rightarrow> ''Bearer null''
                | TokenUndefined \<Rightarrow> ''Bearer undefined'')"
  proof
    fix r assume "r \<in> set gs"
    with gs_tok obtain tok m where "idp e (length tr) = Inr tok" and "r = gemini_request e tok h m"
      by blast
    then have "idp e (length tr) = Inr tok \<and> authorization r = bearer tok"
      by (simp add: gemini_request_def)
    then show "\<exists>tok. idp e (length tr) = Inr tok
             \<and> authorization r =
               (case tok of Token t \<Rightarrow> ''Bearer '' @ t
                | TokenNull \<Rightarrow> ''Bearer null''
                | TokenUndefined \<Rightarrow> ''Bearer undefined'')"
      unfolding header by blast
  qed
  moreover have "fetches (snd (generateWithVertexAI_on ms e prompt tr)) = Suc (fetches tr)"
    by (simp only: rs fetches_posts)
  moreover have "fetches (snd (callGeminiAPI_on ms e h tr)) = Suc (fetches tr)"
    by (simp only: gs fetches_posts)
  ultimately show ?thesis using rs gs by blast
qed

text \<open>
  Two calls in a row. The identity provider hands out the token "first" at moment 0 and
  "second" afterwards, and the first candidate of each call answers 429, so each call
  makes two attempts. Each call fetches once; both attempts of the first call carry
  "Bearer first", both attempts of the second carry "Bearer second".
\<close>

theorem one_token_fetch_per_call_witness:
  "map authorization (posts (snd (callGeminiAPI rotating_tokens [JObj [(''role'', JStr ''user''), (''parts'', JArr [JObj [(''text'', JStr ''hello'')]])]] [])))
     = [''Bearer first'', ''Bearer first'']
   \<and> map authorization (posts (snd (callGeminiAPI rotating_tokens [JObj [(''role'', JStr ''user''), (''parts'', JArr [JObj [(''text'', JStr ''hello'')]])]]
         (snd (callGeminiAPI rotating_tokens [JObj [(''role'', JStr ''user''), (''parts'', JArr [JObj [(''text'', JStr ''hello'')]])]] [])))))
     = [''Bearer first'', ''Bearer first'', ''Bearer second'', ''Bearer second'']
   \<and> map authorization (posts (snd (generateWithVertexAI rotating_tokens ''advise''
         (snd (callGeminiAPI rotating_tokens [JObj [(''role'', JStr ''user''), (''parts'', JArr [JObj [(''text'', JStr ''hello'')]])]] [])))))
     = [''Bearer first'', ''Bearer first'', ''Bearer second'', ''Bearer second'']
   \<and> fetches (snd (callGeminiAPI rotating_tokens [JObj [(''role'', JStr ''user''), (''parts'', JArr [JObj [(''text'', JStr ''hello'')]])]] [])) = 1
   \<and> fetches (snd (callGeminiAPI rotating_tokens [JObj [(''role'', JStr ''user''), (''parts'', JArr [JObj [(''text'', JStr ''hello'')]])]]
         (snd (callGeminiAPI rotating_tokens [JObj [(''role'', JStr ''user''), (''parts'', JArr [JObj [(''text'', JStr ''hello'')]])]] [])))) = 2
   \<and> fetches (snd (generateWithVertexAI rotating_tokens ''advise''
         (snd (callGeminiAPI rotating_tokens [JObj [(''role'', JStr ''user''), (''parts'', JArr [JObj [(''text'', JStr ''hello'')]])]] [])))) = 2"
  using one_token_fetch_per_call
    [where ms = gemini_modelNames and e = rotating_tokens and h = "[JObj [(''role'', JStr ''user''), (''parts'', JArr [JObj [(''text'', JStr ''hello'')]])]]"
       and tr = "[]" and prompt = "''advise''"]
    one_token_fetch_per_call
    [where ms = gemini_modelNames and e = rotating_tokens and h = "[JObj [(''role'', JStr ''user''), (''parts'', JArr [JObj [(''text'', JStr ''hello'')]])]]"
       and tr = "snd (callGeminiAPI rotating_tokens [JObj [(''role'', JStr ''user''), (''parts'', JArr [JObj [(''text'', JStr ''hello'')]])]] [])"
       and prompt = "''advise''"]
    one_token_fetch_per_call
    [where ms = vertex_modelNames and e = rotating_tokens and h = "[JObj [(''role'', JStr ''user''), (''parts'', JArr [JObj [(''text'', JStr ''hello'')]])]]"
       and tr = "snd (callGeminiAPI rotating_tokens [JObj [(''role'', JStr ''user''), (''parts'', JArr [JObj [(''text'', JStr ''hello'')]])]] [])"
       and prompt = "''advise''"]
  by (simp add: callGeminiAPI_def callGeminiAPI_on_def generateWithVertexAI_def
      generateWithVertexAI_on_def getAccessToken_def gemini_modelNames_def vertex_modelNames_def
      rotating_tokens_def or_null_def fetches_def gemini_request_def vertex_request_def)

section \<open>Properties of the chat handler\<close>

text \<open>
  Claim C7. For a prior history that is an array \<open>H\<close> and a new message, the assembled
  sequence is \<open>H\<close>, in its order, followed by the one turn
  \<open>{role: "user", parts: [{text: message}]}\<close>; for an empty or absent history it is that
  turn alone; in every case it ends with that turn, whose role reads "user" and whose
  first part's text reads the message; and it is this sequence that every POST of the
  chat request carries as its \<open>contents\<close>.
\<close>

theorem geminiHistory_appends_user_turn:
  "geminiHistory (JArr H) message
     = H @ [JObj [(''role'', JStr ''user''), (''parts'', JArr [JObj [(''text'', message)]])]]
   \<and> geminiHistory (JArr []) message
     = [JObj [(''role'', JStr ''user''), (''parts'', JArr [JObj [(''text'', message)]])]]
   \<and> geminiHistory JUndefined message
     = [JObj [(''role'', JStr ''user''), (''parts'', JArr [JObj [(''text'', message)]])]]
   \<and> geminiHistory JNull message
     = [JObj [(''role'', JStr ''user''), (''parts'', JArr [JObj [(''text'', message)]])]]
   \<and> last (geminiHistory conversationHistory message)
     = JObj [(''role'', JStr ''user''), (''parts'', JArr [JObj [(''text'', message)]])]
   \<and> get ''role'' (last (geminiHistory conversationHistory message)) = JStr ''user''
   \<and> get ''text'' (at0 (get ''parts'' (last (geminiHistory conversationHistory message))))
     = message
   \<and> (\<forall>r. HttpPost r \<in> set (drop (length tr)
            (snd (chat_fields e now sid message conversationHistory tr)))
        \<longrightarrow> get ''contents'' (payload r) = JArr (geminiHistory conversationHistory message)
          \<and> last (elements (get ''contents'' (payload r)))
            = JObj [(''role'', JStr ''user''), (''parts'', JArr [JObj [(''text'', message)]])])"
proof -
  have "last (geminiHistory conversationHistory message)
     = JObj [(''role'', JStr ''user''), (''parts'', JArr [JObj [(''text'', message)]])]"
    by (simp add: geminiHistory_def user_turn_def Let_def)
  then show ?thesis
    using chat_fields_posts [of _ tr e now sid message conversationHistory]
    by (auto simp add: geminiHistory_def user_turn_def)
qed

text \<open>The request of the route's documentation: two prior turns and a question.\<close>

theorem geminiHistory_appends_user_turn_witness:
  "geminiHistory
       (JArr [JObj [(''role'', JStr ''user''), (''parts'', JArr [JObj [(''text'', JStr ''Hello'')]])],
          JObj [(''role'', JStr ''model''), (''parts'', JArr [JObj [(''text'', JStr ''Hi! How can I help?'')]])]])
       (JStr ''What are the symptoms of flu?'')
     = [JObj [(''role'', JStr ''user''), (''parts'', JArr [JObj [(''text'', JStr ''Hello'')]])],
          JObj [(''role'', JStr ''model''), (''parts'', JArr [JObj [(''text'', JStr ''Hi! How can I help?'')]])],
          JObj [(''role'', JStr ''user''), (''parts'', JArr [JObj [(''text'', JStr ''What are the symptoms of flu?'')]])]]
   \<and> get ''contents'' (payload
       (gemini_request always_text (Token ''first'')
         [JObj [(''role'', JStr ''user''), (''parts'', JArr [JObj [(''text'', JStr ''Hello'')]])],
          JObj [(''role'', JStr ''model''), (''parts'', JArr [JObj [(''text'', JStr ''Hi! How can I help?'')]])],
          JObj [(''role'', JStr ''user''), (''parts'', JArr [JObj [(''text'', JStr ''What are the symptoms of flu?'')]])]]
         ''gemini-2.0-flash-exp''))
     = JArr [JObj [(''role'', JStr ''user''), (''parts'', JArr [JObj [(''text'', JStr ''Hello'')]])],
          JObj [(''role'', JStr ''model''), (''parts'', JArr [JObj [(''text'', JStr ''Hi! How can I help?'')]])],
          JObj [(''role'', JStr ''user''), (''parts'', JArr [JObj [(''text'', JStr ''What are the symptoms of flu?'')]])]]
   \<and> last (elements (get ''contents'' (payload
       (gemini_request always_text (Token ''first'')
         [JObj [(''role'', JStr ''user''), (''parts'', JArr [JObj [(''text'', JStr ''Hello'')]])],
          JObj [(''role'', JStr ''model''), (''parts'', JArr [JObj [(''text'', JStr ''Hi! How can I help?'')]])],
          JObj [(''role'', JStr ''user''), (''parts'', JArr [JObj [(''text'', JStr ''What are the symptoms of flu?'')]])]]
         ''gemini-2.0-flash-exp''))))
     = JObj [(''role'', JStr ''user''), (''parts'', JArr [JObj [(''text'', JStr ''What are the symptoms of flu?'')]])]"
proof -
  have "HttpPost
       (gemini_request always_text (Token ''first'')
         [JObj [(''role'', JStr ''user''), (''parts'', JArr [JObj [(''text'', JStr ''Hello'')]])],
          JObj [(''role'', JStr ''model''), (''parts'', JArr [JObj [(''text'', JStr ''Hi! How can I help?'')]])],
          JObj [(''role'', JStr ''user''), (''parts'', JArr [JObj [(''text'', JStr ''What are the symptoms of flu?'')]])]]
         ''gemini-2.0-flash-exp'')
     \<in> set (drop (length ([] :: event list))
         (snd (chat_fields always_text ''2025-11-02T10:30:00.000Z'' (JStr ''s-1'')
            (JStr ''What are the symptoms of flu?'')
            (JArr [JObj [(''role'', JStr ''user''), (''parts'', JArr [JObj [(''text'', JStr ''Hello'')]])],
          JObj [(''role'', JStr ''model''), (''parts'', JArr [JObj [(''text'', JStr ''Hi! How can I help?'')]])]])
            [])))"
    by (simp add: chat_fields_def geminiHistory_def user_turn_def callGeminiAPI_def
        callGeminiAPI_on_def getAccessToken_def gemini_modelNames_def always_text_def or_null_def)
  with geminiHistory_appends_user_turn
    [where H = "[JObj [(''role'', JStr ''user''), (''parts'', JArr [JObj [(''text'', JStr ''Hello'')]])],
          JObj [(''role'', JStr ''model''), (''parts'', JArr [JObj [(''text'', JStr ''Hi! How can I help?'')]])]]"
       and message = "JStr ''What are the symptoms of flu?''"
       and conversationHistory = "JArr [JObj [(''role'', JStr ''user''), (''parts'', JArr [JObj [(''text'', JStr ''Hello'')]])],
          JObj [(''role'', JStr ''model''), (''parts'', JArr [JObj [(''text'', JStr ''Hi! How can I help?'')]])]]"
       and tr = "[]" and e = always_text and now = "''2025-11-02T10:30:00.000Z''"
       and sid = "JStr ''s-1''"]
  show ?thesis by (metis append_Cons append_Nil)
qed

text \<open>
  Claim C9, as the code has it. For two chat requests that agree on \<open>message\<close> and
  \<open>conversationHistory\<close> and whose \<open>sessionId\<close>s both pass the handler's checks (each is
  truthy, that is present and not empty, and has a string form for the log, as every
  non-empty string has), the effects are the same and the replies are the same but for
  the \<open>sessionId\<close>, which each reply echoes unchanged. A request that has a body and
  whose \<open>sessionId\<close> is missing or falsy is answered with status 400, whatever its
  other fields, and has no effect: nothing is fetched, posted or generated.
\<close>

theorem sessionId_only_echoed:
  "(get ''message'' b1 = get ''message'' b2
      \<and> get ''conversationHistory'' b1 = get ''conversationHistory'' b2
      \<and> truthy (get ''sessionId'' b1) \<and> stringifiable (get ''sessionId'' b1)
      \<and> truthy (get ''sessionId'' b2) \<and> stringifiable (get ''sessionId'' b2)
    \<longrightarrow> snd (chat e now b1 tr) = snd (chat e now b2 tr)
      \<and> (case fst (chat e now b1 tr) of
            Reply200 sid msg answer ts \<Rightarrow>
              sid = get ''sessionId'' b1
              \<and> fst (chat e now b2 tr) = Reply200 (get ''sessionId'' b2) msg answer ts
          | reply \<Rightarrow> fst (chat e now b2 tr) = reply))
   \<and> (b \<noteq> JUndefined \<and> b \<noteq> JNull \<and> \<not> truthy (get ''sessionId'' b)
    \<longrightarrow> chat e now b tr = (Reply400, tr))"
proof (rule conjI; rule impI)
  assume a: "get ''message'' b1 = get ''message'' b2
      \<and> get ''conversationHistory'' b1 = get ''conversationHistory'' b2
      \<and> truthy (get ''sessionId'' b1) \<and> stringifiable (get ''sessionId'' b1)
      \<and> truthy (get ''sessionId'' b2) \<and> stringifiable (get ''sessionId'' b2)"
  then have t1: "truthy (get ''sessionId'' b1)" and t2: "truthy (get ''sessionId'' b2)"
    by simp_all
  from truthy_get_object [OF t1] truthy_get_object [OF t2]
  have "chat e now b1 tr = chat_fields e now (get ''sessionId'' b1) (get ''message'' b2)
          (get ''conversationHistory'' b2) tr"
    and "chat e now b2 tr = chat_fields e now (get ''sessionId'' b2) (get ''message'' b2)
          (get ''conversationHistory'' b2) tr"
    using a by (simp_all add: chat_def)
  then show "snd (chat e now b1 tr) = snd (chat e now b2 tr)
      \<and> (case fst (chat e now b1 tr) of
            Reply200 sid msg answer ts \<Rightarrow>
              sid = get ''sessionId'' b1
              \<and> fst (chat e now b2 tr) = Reply200 (get ''sessionId'' b2) msg answer ts
          | reply \<Rightarrow> fst (chat e now b2 tr) = reply)"
    using a by (simp add: chat_fields_def split: prod.splits sum.splits)
next
  assume "b \<noteq> JUndefined \<and> b \<noteq> JNull \<and> \<not> truthy (get ''sessionId'' b)"
  then show "chat e now b tr = (Reply400, tr)"
    by (simp add: chat_def chat_fields_def)
qed

text \<open>
  Two requests that differ in a non-empty \<open>sessionId\<close> only get the same response, each
  with its own \<open>sessionId\<close>. Requests without a \<open>sessionId\<close>, with the number 0 or with
  the empty string as \<open>sessionId\<close> are answered 400 with no effect, also when the
  message is an object that the log line could not write.
\<close>

theorem sessionId_only_echoed_witness:
  "chat always_text ''2025-11-02T10:30:00.000Z''
       (JObj [(''sessionId'', JStr ''s-1''), (''message'', JStr ''hello'')]) []
     = (Reply200 (JStr ''s-1'') (JStr ''hello'') (JStr ''Drink water.'') ''2025-11-02T10:30:00.000Z'',
        [TokenFetch, HttpPost (gemini_request always_text (Token ''first'')
           [JObj [(''role'', JStr ''user''), (''parts'', JArr [JObj [(''text'', JStr ''hello'')]])]] ''gemini-2.0-flash-exp'')])
   \<and> chat always_text ''2025-11-02T10:30:00.000Z''
       (JObj [(''sessionId'', JStr ''s-2''), (''message'', JStr ''hello'')]) []
     = (Reply200 (JStr ''s-2'') (JStr ''hello'') (JStr ''Drink water.'') ''2025-11-02T10:30:00.000Z'',
        [TokenFetch, HttpPost (gemini_request always_text (Token ''first'')
           [JObj [(''role'', JStr ''user''), (''parts'', JArr [JObj [(''text'', JStr ''hello'')]])]] ''gemini-2.0-flash-exp'')])
   \<and> chat always_text ''2025-11-02T10:30:00.000Z'' (JObj [(''message'', JStr ''hello'')]) [] = (Reply400, [])
   \<and> chat always_text ''2025-11-02T10:30:00.000Z''
       (JObj [(''sessionId'', JNum 0), (''message'', JStr ''hello'')]) [] = (Reply400, [])
   \<and> chat always_text ''2025-11-02T10:30:00.000Z''
       (JObj [(''sessionId'', JStr []), (''message'', JObj [(''toString'', JNum 1)])]) []
     = (Reply400, [])"
  using sessionId_only_echoed
    [where ?b1.0 = "JObj [(''sessionId'', JStr ''s-1''), (''message'', JStr ''hello'')]"
       and ?b2.0 = "JObj [(''sessionId'', JStr ''s-2''), (''message'', JStr ''hello'')]"
       and b = "JObj [(''message'', JStr ''hello'')]"
       and e = always_text and now = "''2025-11-02T10:30:00.000Z''" and tr = "[]"]
    sessionId_only_echoed
    [where ?b1.0 = "JObj [(''sessionId'', JStr ''s-1''), (''message'', JStr ''hello'')]"
       and ?b2.0 = "JObj [(''sessionId'', JStr ''s-2''), (''message'', JStr ''hello'')]"
       and b = "JObj [(''sessionId'', JNum 0), (''message'', JStr ''hello'')]"
       and e = always_text and now = "''2025-11-02T10:30:00.000Z''" and tr = "[]"]
    sessionId_only_echoed
    [where ?b1.0 = "JObj [(''sessionId'', JStr ''s-1''), (''message'', JStr ''hello'')]"
       and ?b2.0 = "JObj [(''sessionId'', JStr ''s-2''), (''message'', JStr ''hello'')]"
       and b = "JObj [(''sessionId'', JStr []), (''message'', JObj [(''toString'', JNum 1)])]"
       and e = always_text and now = "''2025-11-02T10:30:00.000Z''" and tr = "[]"]
  by (simp add: chat_def chat_fields_def geminiHistory_def user_turn_def callGeminiAPI_def
      callGeminiAPI_on_def getAccessToken_def gemini_modelNames_def always_text_def or_null_def)

text \<open>
  Two requests with the same message and no history, one with the empty string as its
  \<open>sessionId\<close>: it is answered 400 with no effect, while the other gets a generated
  response.
\<close>

theorem falsy_sessionId_rejected_counterexample:
  "get ''message'' (JObj [(''sessionId'', JStr []), (''message'', JStr ''hello'')])
     = get ''message'' (JObj [(''sessionId'', JStr ''s-2''), (''message'', JStr ''hello'')])
   \<and> get ''conversationHistory'' (JObj [(''sessionId'', JStr []), (''message'', JStr ''hello'')])
     = get ''conversationHistory'' (JObj [(''sessionId'', JStr ''s-2''), (''message'', JStr ''hello'')])
   \<and> chat always_text ''2025-11-02T10:30:00.000Z''
       (JObj [(''sessionId'', JStr []), (''message'', JStr ''hello'')]) []
     = (Reply400, [])
   \<and> chat always_text ''2025-11-02T10:30:00.000Z''
       (JObj [(''sessionId'', JStr ''s-2''), (''message'', JStr ''hello'')]) []
     = (Reply200 (JStr ''s-2'') (JStr ''hello'') (JStr ''Drink water.'') ''2025-11-02T10:30:00.000Z'',
        [TokenFetch, HttpPost (gemini_request always_text (Token ''first'')
           [user_turn (JStr ''hello'')] ''gemini-2.0-flash-exp'')])"
  by (simp add: chat_def chat_fields_def geminiHistory_def callGeminiAPI_def callGeminiAPI_on_def
      getAccessToken_def gemini_modelNames_def always_text_def or_null_def)

text \<open>
  Claim C10. A chat request whose \<open>conversationHistory\<close> is present but not an array is
  handled exactly as the same request with the empty history; every POST it issues
  carries as \<open>contents\<close> the one-element array holding the new turn
  \<open>{role: "user", parts: [{text: message}]}\<close>; and when its \<open>sessionId\<close> and \<open>message\<close>
  pass the handler's checks it is not rejected: the answer is what \<open>callGeminiAPI\<close>
  makes of that single turn.
\<close>

theorem non_array_history_is_empty:
  assumes "get ''conversationHistory'' body \<noteq> JUndefined"
    and "\<not> isArray (get ''conversationHistory'' body)"
  shows "chat e now body tr
       = chat_fields e now (get ''sessionId'' body) (get ''message'' body) (JArr []) tr
     \<and> (\<forall>r. HttpPost r \<in> set (drop (length tr) (snd (chat e now body tr)))
          \<longrightarrow> get ''contents'' (payload r)
            = JArr [JObj [(''role'', JStr ''user''), (''parts'', JArr [JObj [(''text'', get ''message'' body)]])]])
     \<and> (truthy (get ''sessionId'' body) \<and> stringifiable (get ''sessionId'' body)
        \<and> truthy (get ''message'' body) \<and> stringifiable (get ''message'' body)
        \<longrightarrow> snd (chat e now body tr)
              = snd (callGeminiAPI e
                  [JObj [(''role'', JStr ''user''), (''parts'', JArr [JObj [(''text'', get ''message'' body)]])]] tr)
          \<and> fst (chat e now body tr)
              = (case fst (callGeminiAPI e
                  [JObj [(''role'', JStr ''user''), (''parts'', JArr [JObj [(''text'', get ''message'' body)]])]] tr) of
                   Inr aiResponse \<Rightarrow>
                     Reply200 (get ''sessionId'' body) (get ''message'' body) aiResponse now
                 | Inl err \<Rightarrow> Reply500_AI (err_message err)))"
proof -
  let ?h = "get ''conversationHistory'' body"
  let ?sid = "get ''sessionId'' body"
  let ?msg = "get ''message'' body"
  let ?turn = "JObj [(''role'', JStr ''user''), (''parts'', JArr [JObj [(''text'', ?msg)]])]"
  from assms(2) have h: "geminiHistory ?h ?msg = [?turn]"
    by (simp add: geminiHistory_def user_turn_def)
  have e: "geminiHistory (JArr []) ?msg = [?turn]"
    by (simp add: geminiHistory_def user_turn_def)
  from assms(1) have "body \<noteq> JUndefined \<and> body \<noteq> JNull"
    by (cases body) auto
  then have c: "chat e now body tr = chat_fields e now ?sid ?msg ?h tr"
    by (simp add: chat_def)
  have 1: "chat e now body tr = chat_fields e now ?sid ?msg (JArr []) tr"
    unfolding c by (simp add: chat_fields_def h e)
  have 2: "\<forall>r. HttpPost r \<in> set (drop (length tr) (snd (chat e now body tr)))
          \<longrightarrow> get ''contents'' (payload r) = JArr [?turn]"
    unfolding c using chat_fields_posts [of _ tr e now ?sid ?msg ?h] by (simp add: h)
  have 3: "truthy ?sid \<and> stringifiable ?sid \<and> truthy ?msg \<and> stringifiable ?msg
        \<longrightarrow> snd (chat e now body tr) = snd (callGeminiAPI e [?turn] tr)
          \<and> fst (chat e now body tr)
              = (case fst (callGeminiAPI e [?turn] tr) of
                   Inr aiResponse \<Rightarrow> Reply200 ?sid ?msg aiResponse now
                 | Inl err \<Rightarrow> Reply500_AI (err_message err))"
    unfolding c by (simp add: chat_fields_def h split: prod.splits sum.splits)
  from 1 2 3 show ?thesis by blast
qed

text \<open>
  A history that is a string, a number or an object: the one POST carries the single
  turn \<open>{role: "user", parts: [{text: "hello"}]}\<close> and the request is answered 200.
\<close>

theorem non_array_history_is_empty_witness:
  "chat always_text ''2025-11-02T10:30:00.000Z''
       (JObj [(''sessionId'', JStr ''s-1''), (''message'', JStr ''hello''),
              (''conversationHistory'', JStr ''earlier we talked'')]) []
     = (Reply200 (JStr ''s-1'') (JStr ''hello'') (JStr ''Drink water.'') ''2025-11-02T10:30:00.000Z'',
        [TokenFetch, HttpPost (gemini_request always_text (Token ''first'')
           [JObj [(''role'', JStr ''user''), (''parts'', JArr [JObj [(''text'', JStr ''hello'')]])]] ''gemini-2.0-flash-exp'')])
   \<and> map (\<lambda>r. get ''contents'' (payload r))
       (posts (snd (chat always_text ''2025-11-02T10:30:00.000Z''
         (JObj [(''sessionId'', JStr ''s-1''), (''message'', JStr ''hello''),
                (''conversationHistory'', JStr ''earlier we talked'')]) [])))
     = [JArr [JObj [(''role'', JStr ''user''), (''parts'', JArr [JObj [(''text'', JStr ''hello'')]])]]]
   \<and> map (\<lambda>r. get ''contents'' (payload r))
       (posts (snd (chat always_text ''2025-11-02T10:30:00.000Z''
         (JObj [(''sessionId'', JStr ''s-1''), (''message'', JStr ''hello''),
                (''conversationHistory'', JNum 7)]) [])))
     = [JArr [JObj [(''role'', JStr ''user''), (''parts'', JArr [JObj [(''text'', JStr ''hello'')]])]]]
   \<and> map (\<lambda>r. get ''contents'' (payload r))
       (posts (snd (chat always_text ''2025-11-02T10:30:00.000Z''
         (JObj [(''sessionId'', JStr ''s-1''), (''message'', JStr ''hello''),
                (''conversationHistory'',
                 JObj [(''0'', JObj [(''role'', JStr ''user''), (''parts'', JArr [JObj [(''text'', JStr ''Hello'')]])])])]) [])))
     = [JArr [JObj [(''role'', JStr ''user''), (''parts'', JArr [JObj [(''text'', JStr ''hello'')]])]]]"
  using non_array_history_is_empty
    [where body = "JObj [(''sessionId'', JStr ''s-1''), (''message'', JStr ''hello''),
              (''conversationHistory'', JStr ''earlier we talked'')]"
       and e = always_text and now = "''2025-11-02T10:30:00.000Z''" and tr = "[]"]
    non_array_history_is_empty
    [where body = "JObj [(''sessionId'', JStr ''s-1''), (''message'', JStr ''hello''),
              (''conversationHistory'', JNum 7)]"
       and e = always_text and now = "''2025-11-02T10:30:00.000Z''" and tr = "[]"]
    non_array_history_is_empty
    [where body = "JObj [(''sessionId'', JStr ''s-1''), (''message'', JStr ''hello''),
              (''conversationHistory'',
                 JObj [(''0'', JObj [(''role'', JStr ''user''), (''parts'', JArr [JObj [(''text'', JStr ''Hello'')]])])])]"
       and e = always_text and now = "''2025-11-02T10:30:00.000Z''" and tr = "[]"]
  by (simp add: chat_fields_def geminiHistory_def user_turn_def callGeminiAPI_def
      callGeminiAPI_on_def getAccessToken_def gemini_modelNames_def always_text_def or_null_def
      gemini_request_def)

end
